theory Spec2Isabelle
  imports Complex_Main "HOL-Library.AList"
begin

section \<open>Arrays\<close>

text \<open>
  Numbers are real numbers (the floats of the source without rounding), a one-dimensional
  array is a list and a two-dimensional array is a list of rows. The numpy operations that
  \<^verbatim>\<open>urdf.py\<close> uses are written out: \<^verbatim>\<open>np.zeros\<close>, \<^verbatim>\<open>np.eye\<close>, \<^verbatim>\<open>np.hstack\<close>, \<^verbatim>\<open>.T\<close>
  (the transpose of lists of equal length) and, for the examples, \<^verbatim>\<open>.dot\<close>.
\<close>

type_synonym vector = "real list"
type_synonym matrix = "real list list"

definition zeros :: "nat \<Rightarrow> vector" where
  "zeros n = replicate n 0"

definition eye :: "nat \<Rightarrow> matrix" where
  "eye n = map (\<lambda>i. map (\<lambda>j. if i = j then 1 else 0) [0..<n]) [0..<n]"

definition hstack :: "vector \<Rightarrow> vector \<Rightarrow> vector" where
  "hstack a b = a @ b"

definition dot :: "matrix \<Rightarrow> matrix \<Rightarrow> matrix" where
  "dot A B = map (\<lambda>row. map (\<lambda>col. sum_list (map2 (*) row col)) (transpose B)) A"

text \<open>The slices \<^verbatim>\<open>A[:3, :3]\<close> and \<^verbatim>\<open>A[:3, 3]\<close> of a homogeneous transform.\<close>

definition rotation_block :: "matrix \<Rightarrow> matrix" where
  "rotation_block A = map (take 3) (take 3 A)"

definition translation_block :: "matrix \<Rightarrow> vector" where
  "translation_block A = concat (map (\<lambda>row. take 1 (drop 3 row)) (take 3 A))"

section \<open>The document accessor\<close>

text \<open>
  The parsed document is a tree of elements, each with a tag, its attributes and its child
  elements in document order. \<^verbatim>\<open>find\<close> and \<^verbatim>\<open>findAll\<close> search all descendants of an element
  in document order; \<^verbatim>\<open>has_attr\<close> and \<^verbatim>\<open>element[key]\<close> read the attributes, and reading
  an attribute that is absent raises \<^verbatim>\<open>KeyError\<close>.
\<close>

datatype element =
  Element (tag_name: string) (attrs: "(string \<times> string) list") (contents: "element list")

datatype exception = UrdfException string | KeyError string

fun descendants :: "element \<Rightarrow> element list" where
  "descendants (Element t a cs) = concat (map (\<lambda>c. c # descendants c) cs)"

definition findAll :: "element \<Rightarrow> string \<Rightarrow> element list" where
  "findAll e t = filter (\<lambda>d. tag_name d = t) (descendants e)"

definition find_el :: "element \<Rightarrow> string \<Rightarrow> element option" where
  "find_el e t = (case findAll e t of [] \<Rightarrow> None | d # ds \<Rightarrow> Some d)"

definition get_attr :: "element \<Rightarrow> string \<Rightarrow> string option" where
  "get_attr e k = map_of (attrs e) k"

definition has_attr :: "element \<Rightarrow> string \<Rightarrow> bool" where
  "has_attr e k = (get_attr e k \<noteq> None)"

definition getitem :: "element \<Rightarrow> string \<Rightarrow> exception + string" where
  "getitem e k = (case get_attr e k of None \<Rightarrow> Inl (KeyError k) | Some v \<Rightarrow> Inr v)"

text \<open>Python's \<^verbatim>\<open>"'%s'" % s\<close>: the string between single quotes.\<close>

definition quoted :: "string \<Rightarrow> string" where
  "quoted s = [CHR 0x27] @ s @ [CHR 0x27]"

section \<open>The library functions that urdf.py imports\<close>

text \<open>
  \<^verbatim>\<open>urdf.py\<close> imports \<^verbatim>\<open>transform_from\<close> and \<^verbatim>\<open>concat\<close> from \<^verbatim>\<open>transformations\<close>,
  \<^verbatim>\<open>matrix_from_euler_xyz\<close> and \<^verbatim>\<open>matrix_from_axis_angle\<close> from \<^verbatim>\<open>rotations\<close>, and parses
  numbers with \<^verbatim>\<open>np.fromstring(s, sep=" ")\<close>. Their code is not part of \<^verbatim>\<open>urdf.py\<close>, so the
  model takes them as parameters, collected in one record, and every function of
  \<^verbatim>\<open>urdf.py\<close> that calls one of them takes the record as its first argument. They are
  total here: a call is taken to return.
\<close>

record externals =
  fromstring :: "string \<Rightarrow> vector"
  matrix_from_euler_xyz :: "vector \<Rightarrow> matrix"
  matrix_from_axis_angle :: "vector \<Rightarrow> matrix"
  transform_from :: "matrix \<Rightarrow> vector \<Rightarrow> matrix"
  concat_tf :: "matrix \<Rightarrow> matrix \<Rightarrow> matrix"

section \<open>The transformation manager\<close>

text \<open>
  \<^verbatim>\<open>UrdfTransformManager\<close> extends \<^verbatim>\<open>TransformManager\<close> by the dictionary \<^verbatim>\<open>_joints\<close>, from
  a joint's name to the tuple (from_frame, to_frame, child2parent, axis).
\<close>

record manager =
  frames :: "string set"
  transforms :: "string \<times> string \<rightharpoonup> matrix"
  joints :: "string \<rightharpoonup> string \<times> string \<times> matrix \<times> vector"

definition UrdfTransformManager :: manager where
  "UrdfTransformManager = \<lparr>frames = {}, transforms = Map.empty, joints = Map.empty\<rparr>"

text \<open>
  Modelled from the spec: \<^verbatim>\<open>TransformManager.add_transform\<close> is not in \<^verbatim>\<open>urdf.py\<close>. The
  spec's Frame-Graph Store exposes \<^verbatim>\<open>upsert_edge(child_frame, parent_frame, transform)\<close>, which
  inserts or replaces the directed edge between two named frames; frames come into
  existence as the edges that name them are committed.
\<close>

definition add_transform :: "string \<Rightarrow> string \<Rightarrow> matrix \<Rightarrow> manager \<Rightarrow> manager" where
  "add_transform from_frame to_frame A2B m =
     m\<lparr>frames := insert from_frame (insert to_frame (frames m)),
       transforms := (transforms m)((from_frame, to_frame) \<mapsto> A2B)\<rparr>"

definition add_joint ::
  "string \<Rightarrow> string \<Rightarrow> string \<Rightarrow> matrix \<Rightarrow> vector \<Rightarrow> manager \<Rightarrow> manager" where
  "add_joint joint_name from_frame to_frame child2parent axis m =
     (let m1 = add_transform from_frame to_frame child2parent m
      in m1\<lparr>joints := (joints m1)(joint_name \<mapsto> (from_frame, to_frame, child2parent, axis))\<rparr>)"

text \<open>
  A method that can raise returns the exception or the result, together with the manager
  as the call leaves it.
\<close>

definition set_joint ::
  "externals \<Rightarrow> string \<Rightarrow> real \<Rightarrow> manager \<Rightarrow> (exception + unit) \<times> manager" where
  "set_joint ext joint_name angle m =
     (case joints m joint_name of
        None \<Rightarrow> (Inl (KeyError (''Joint '' @ quoted joint_name @ '' is not known'')), m)
      | Some (from_frame, to_frame, child2parent, axis) \<Rightarrow>
          (let joint_rotation = matrix_from_axis_angle ext (hstack axis [angle]);
               joint2A = transform_from ext joint_rotation (zeros 3)
           in (Inr (), add_transform from_frame to_frame (concat_tf ext joint2A child2parent) m)))"

section \<open>Nodes\<close>

record node =
  child :: string
  parent :: string
  child2parent :: matrix
  joint_name :: "string option"
  joint_axis :: "vector option"
  joint_type :: string

definition Node :: "string \<Rightarrow> string \<Rightarrow> node" where
  "Node c p = \<lparr>child = c, parent = p, child2parent = eye 4, joint_name = None,
     joint_axis = None, joint_type = ''fixed''\<rparr>"

section \<open>Loading a URDF\<close>

definition parse_link :: "element \<Rightarrow> string \<Rightarrow> exception + node" where
  "parse_link link robot_name =
     (case get_attr link ''name'' of
        None \<Rightarrow> Inl (UrdfException ''Link name is missing.'')
      | Some link_name \<Rightarrow> Inr (Node link_name robot_name))"

text \<open>
  \<^verbatim>\<open>_parse_joint\<close> updates the node in place; the model returns the updated node. When it
  raises, the node table that holds the half-updated node is dropped with the call of
  \<^verbatim>\<open>load_urdf\<close>, so the model returns the exception alone.
\<close>

definition parse_joint :: "externals \<Rightarrow> element \<Rightarrow> node \<Rightarrow> string \<Rightarrow> exception + node" where
  "parse_joint ext joint nd parent_name =
     (case getitem joint ''name'' of
        Inl e \<Rightarrow> Inl e
      | Inr jname \<Rightarrow>
     (case getitem joint ''type'' of
        Inl e \<Rightarrow> Inl e
      | Inr jtype \<Rightarrow>
          if jtype \<in> set [''planar'', ''floating'', ''continuous'', ''prismatic''] then
            Inl (UrdfException (''Unsupported joint type '' @ quoted jtype))
          else if jtype \<notin> set [''revolute'', ''fixed''] then
            Inl (UrdfException
              (''Joint type '' @ quoted jtype @ '' is not allowed in a URDF document.''))
          else
            (let origin = find_el joint ''origin'';
                 translation =
                   (case origin of
                      None \<Rightarrow> zeros 3
                    | Some og \<Rightarrow>
                        (case get_attr og ''xyz'' of
                           None \<Rightarrow> zeros 3
                         | Some s \<Rightarrow> fromstring ext s));
                 rotation =
                   (case origin of
                      None \<Rightarrow> eye 3
                    | Some og \<Rightarrow>
                        (case get_attr og ''rpy'' of
                           None \<Rightarrow> eye 3
                         | Some s \<Rightarrow> transpose (matrix_from_euler_xyz ext (fromstring ext s))));
                 axis =
                   (if jtype = ''revolute'' then
                      (case find_el joint ''axis'' of
                         None \<Rightarrow> [1, 0, 0]
                       | Some ax \<Rightarrow>
                           (case get_attr ax ''xyz'' of
                              None \<Rightarrow> [1, 0, 0]
                            | Some s \<Rightarrow> fromstring ext s))
                    else [1, 0, 0])
             in Inr (nd\<lparr>joint_name := Some jname, joint_type := jtype, parent := parent_name,
                        child2parent := transform_from ext rotation translation,
                        joint_axis := Some axis\<rparr>))))"

text \<open>
  The dictionary \<^verbatim>\<open>nodes\<close> is an association list in insertion order: assigning to a key
  that is present replaces its value in place, assigning to a new key appends.
\<close>

type_synonym node_table = "(string \<times> node) list"

fun parse_links :: "element list \<Rightarrow> string \<Rightarrow> node_table \<Rightarrow> exception + node_table" where
  "parse_links [] robot_name nodes = Inr nodes"
| "parse_links (link # links) robot_name nodes =
     (case parse_link link robot_name of
        Inl e \<Rightarrow> Inl e
      | Inr nd \<Rightarrow> parse_links links robot_name (AList.update (child nd) nd nodes))"

text \<open>The body of the loop over the joint elements.\<close>

definition load_joint :: "externals \<Rightarrow> element \<Rightarrow> node_table \<Rightarrow> exception + node_table" where
  "load_joint ext joint nodes =
     (case get_attr joint ''name'' of
        None \<Rightarrow> Inl (UrdfException ''Joint name is missing.'')
      | Some jname \<Rightarrow>
          if \<not> has_attr joint ''type'' then
            Inl (UrdfException (''Joint type is missing in joint '' @ quoted jname @ ''.''))
          else
            (case find_el joint ''parent'' of
               None \<Rightarrow> Inl (UrdfException (''No parent specified in joint '' @ quoted jname))
             | Some parent_el \<Rightarrow>
            (case get_attr parent_el ''link'' of
               None \<Rightarrow>
                 Inl (UrdfException
                   (''No parent link name given in joint '' @ quoted jname @ ''.''))
             | Some parent_name \<Rightarrow>
                 if map_of nodes parent_name = None then
                   Inl (UrdfException (''Parent link '' @ quoted parent_name @ '' of joint ''
                     @ quoted jname @ '' is not defined.''))
                 else
                   (case find_el joint ''child'' of
                      None \<Rightarrow>
                        Inl (UrdfException (''No child specified in joint '' @ quoted jname))
                    | Some child_el \<Rightarrow>
                   (case get_attr child_el ''link'' of
                      None \<Rightarrow>
                        Inl (UrdfException
                          (''No child link name given in joint '' @ quoted jname @ ''.''))
                    | Some child_name \<Rightarrow>
                   (case map_of nodes child_name of
                      None \<Rightarrow>
                        Inl (UrdfException (''Child link '' @ quoted child_name
                          @ '' of joint '' @ quoted jname @ '' is not defined.''))
                    | Some nd \<Rightarrow>
                   (case parse_joint ext joint nd parent_name of
                      Inl e \<Rightarrow> Inl e
                    | Inr nd' \<Rightarrow> Inr (AList.update child_name nd' nodes))))))))"

fun parse_joints :: "externals \<Rightarrow> element list \<Rightarrow> node_table \<Rightarrow> exception + node_table" where
  "parse_joints ext [] nodes = Inr nodes"
| "parse_joints ext (joint # rest) nodes =
     (case load_joint ext joint nodes of
        Inl e \<Rightarrow> Inl e
      | Inr nodes' \<Rightarrow> parse_joints ext rest nodes')"

text \<open>
  The body of the loop over \<^verbatim>\<open>nodes.values()\<close>. A node whose type is revolute got its
  name and its axis from \<^verbatim>\<open>_parse_joint\<close> (lemma \<open>parse_joints_revolute_named\<close> below), so the
  case of a revolute node without them does not arise in \<^verbatim>\<open>load_urdf\<close>.
\<close>

definition commit_node :: "node \<Rightarrow> manager \<Rightarrow> manager" where
  "commit_node nd m =
     (if joint_type nd = ''revolute'' then
        (case (joint_name nd, joint_axis nd) of
           (Some jname, Some axis) \<Rightarrow>
             add_joint jname (child nd) (parent nd) (child2parent nd) axis m
         | _ \<Rightarrow> add_transform (child nd) (parent nd) (child2parent nd) m)
      else add_transform (child nd) (parent nd) (child2parent nd) m)"

definition load_urdf :: "externals \<Rightarrow> element \<Rightarrow> manager \<Rightarrow> (exception + unit) \<times> manager" where
  "load_urdf ext urdf m =
     (case find_el urdf ''robot'' of
        None \<Rightarrow> (Inl (UrdfException ''Robot tag is missing.''), m)
      | Some robot \<Rightarrow>
     (case get_attr robot ''name'' of
        None \<Rightarrow> (Inl (UrdfException ''Attribute 'name' is missing in robot tag.''), m)
      | Some robot_name \<Rightarrow>
     (case parse_links (findAll robot ''link'') robot_name [] of
        Inl e \<Rightarrow> (Inl e, m)
      | Inr nodes \<Rightarrow>
     (case parse_joints ext (findAll robot ''joint'') nodes of
        Inl e \<Rightarrow> (Inl e, m)
      | Inr nodes' \<Rightarrow> (Inr (), fold commit_node (map snd nodes') m)))))"

section \<open>An instance of the library functions\<close>

text \<open>
  Modelled from the spec: \<^verbatim>\<open>transformations.py\<close> and \<^verbatim>\<open>rotations.py\<close> are not under the
  sources. The spec names their four functions: a rotation matrix from Euler angles, a
  rotation matrix from an axis and an angle (here Rodrigues' formula), the 4x4 homogeneous
  transform of a rotation and a translation, and the composition of two transforms by
  matrix multiplication. The composition follows the frame names of the source:
  \<^verbatim>\<open>concat(A2B, B2C)\<close> is the transform from A to C, the matrix of \<^verbatim>\<open>B2C\<close> times the matrix
  of \<^verbatim>\<open>A2B\<close>, so that \<^verbatim>\<open>A2B\<close> acts first. \<^verbatim>\<open>ref_fromstring\<close> reads unsigned whole numbers
  separated by blanks. The instance serves the examples; the theorems hold for every
  instance.
\<close>

definition digit_of :: "char \<Rightarrow> nat" where
  "digit_of c = (if c = CHR ''1'' then 1 else if c = CHR ''2'' then 2 else if c = CHR ''3'' then 3
     else if c = CHR ''4'' then 4 else if c = CHR ''5'' then 5 else if c = CHR ''6'' then 6
     else if c = CHR ''7'' then 7 else if c = CHR ''8'' then 8 else if c = CHR ''9'' then 9 else 0)"

fun split_blank :: "string \<Rightarrow> string \<Rightarrow> string list" where
  "split_blank [] w = (if w = [] then [] else [w])"
| "split_blank (c # cs) w =
     (if c = CHR '' '' then (if w = [] then split_blank cs [] else w # split_blank cs [])
      else split_blank cs (w @ [c]))"

definition ref_fromstring :: "string \<Rightarrow> vector" where
  "ref_fromstring s = map (\<lambda>w. real (foldl (\<lambda>n c. 10 * n + digit_of c) 0 w)) (split_blank s [])"

definition ref_matrix_from_axis_angle :: "vector \<Rightarrow> matrix" where
  "ref_matrix_from_axis_angle a =
     (case a of
        [ux, uy, uz, theta] \<Rightarrow>
          (let c = cos theta; s = sin theta; ci = 1 - c
           in [[ci * ux * ux + c, ci * ux * uy - uz * s, ci * ux * uz + uy * s],
               [ci * uy * ux + uz * s, ci * uy * uy + c, ci * uy * uz - ux * s],
               [ci * uz * ux - uy * s, ci * uz * uy + ux * s, ci * uz * uz + c]])
      | _ \<Rightarrow> [])"

definition ref_matrix_from_euler_xyz :: "vector \<Rightarrow> matrix" where
  "ref_matrix_from_euler_xyz e =
     (case e of
        [alpha, beta, gamma] \<Rightarrow>
          dot (dot [[1, 0, 0], [0, cos alpha, - sin alpha], [0, sin alpha, cos alpha]]
                   [[cos beta, 0, sin beta], [0, 1, 0], [- sin beta, 0, cos beta]])
              [[cos gamma, - sin gamma, 0], [sin gamma, cos gamma, 0], [0, 0, 1]]
      | _ \<Rightarrow> [])"

definition ref_transform_from :: "matrix \<Rightarrow> vector \<Rightarrow> matrix" where
  "ref_transform_from R p = map2 (\<lambda>row x. row @ [x]) R p @ [[0, 0, 0, 1]]"

definition ref_concat :: "matrix \<Rightarrow> matrix \<Rightarrow> matrix" where
  "ref_concat A2B B2C = dot B2C A2B"

definition reference :: externals where
  "reference = \<lparr>fromstring = ref_fromstring, matrix_from_euler_xyz = ref_matrix_from_euler_xyz,
     matrix_from_axis_angle = ref_matrix_from_axis_angle, transform_from = ref_transform_from,
     concat_tf = ref_concat\<rparr>"

section \<open>The vocabulary of the statements\<close>

text \<open>
  The names that the link elements of the robot declare, and the links that its joint
  elements name as their child.
\<close>

definition link_names :: "element \<Rightarrow> string list" where
  "link_names robot = List.map_filter (\<lambda>l. get_attr l ''name'') (findAll robot ''link'')"

definition child_link :: "element \<Rightarrow> string option" where
  "child_link joint =
     (case find_el joint ''child'' of None \<Rightarrow> None | Some ce \<Rightarrow> get_attr ce ''link'')"

definition joint_children :: "element \<Rightarrow> string list" where
  "joint_children robot = List.map_filter child_link (findAll robot ''joint'')"

text \<open>
  The node table of \<^verbatim>\<open>load_urdf\<close> holds every key once, and the node under a key has the
  key as its child: \<^verbatim>\<open>nodes[node.child] = node\<close>.
\<close>

definition keyed :: "node_table \<Rightarrow> bool" where
  "keyed nodes = (distinct (map fst nodes) \<and> (\<forall>(k, nd)\<in>set nodes. child nd = k))"

text \<open>
  A node holds the data of a joint element: the name and the type of the element, and an
  axis.
\<close>

definition from_joint :: "element \<Rightarrow> node \<Rightarrow> bool" where
  "from_joint joint nd =
     (joint_name nd \<noteq> None \<and> joint_name nd = get_attr joint ''name''
      \<and> Some (joint_type nd) = get_attr joint ''type'' \<and> joint_axis nd \<noteq> None)"

text \<open>
  The node table of the same elements under another robot name: the nodes that no joint
  element has written hang under the other name.
\<close>

definition reparent :: "string \<Rightarrow> node \<Rightarrow> node" where
  "reparent rn nd = (if joint_name nd = None then nd\<lparr>parent := rn\<rparr> else nd)"

definition reparent_table :: "string \<Rightarrow> node_table \<Rightarrow> node_table" where
  "reparent_table rn nodes = map (\<lambda>(k, nd). (k, reparent rn nd)) nodes"

section \<open>Examples\<close>

definition example_T :: matrix where
  "example_T = [[1, 0, 0, 1], [0, 1, 0, 0], [0, 0, 1, 0], [0, 0, 0, 1]]"

definition example_manager :: manager where
  "example_manager = add_joint ''j1'' ''arm'' ''base'' example_T [0, 0, 1] UrdfTransformManager"

text \<open>Documents for the examples: a robot with its name and its elements.\<close>

definition link_el :: "string \<Rightarrow> element" where
  "link_el n = Element ''link'' [(''name'', n)] []"

definition joint_el :: "string \<Rightarrow> string \<Rightarrow> string \<Rightarrow> string \<Rightarrow> element list \<Rightarrow> element" where
  "joint_el n t p c others =
     Element ''joint'' [(''name'', n), (''type'', t)]
       ([Element ''parent'' [(''link'', p)] [], Element ''child'' [(''link'', c)] []] @ others)"

definition robot_doc :: "string \<Rightarrow> element list \<Rightarrow> element" where
  "robot_doc rn cs = Element ''[document]'' [] [Element ''robot'' [(''name'', rn)] cs]"

definition example_joint :: element where
  "example_joint = joint_el ''j1'' ''revolute'' ''base'' ''arm''
     [Element ''origin'' [(''xyz'', ''1 0 0'')] [], Element ''axis'' [(''xyz'', ''0 0 1'')] []]"

definition example_urdf :: element where
  "example_urdf = robot_doc ''r'' [link_el ''base'', link_el ''arm'', example_joint]"

definition unknown_parent_urdf :: element where
  "unknown_parent_urdf = robot_doc ''r'' [joint_el ''j1'' ''fixed'' ''world'' ''arm'' [], link_el ''arm'']"

definition typed_urdf :: "string \<Rightarrow> element" where
  "typed_urdf t = robot_doc ''r'' [joint_el ''j1'' t ''base'' ''arm'' [], link_el ''base'', link_el ''arm'']"

definition abort_urdf :: element where
  "abort_urdf = robot_doc ''r''
     [link_el ''arm'', joint_el ''j1'' ''fixed'' ''world'' ''arm'' [],
      joint_el ''j2'' ''screw'' ''arm'' ''arm'' []]"

definition rpy_joint :: element where
  "rpy_joint = joint_el ''j2'' ''fixed'' ''base'' ''arm'' [Element ''origin'' [(''rpy'', ''0 0 1'')] []]"



definition one_link_urdf :: "string \<Rightarrow> element" where
  "one_link_urdf rn = robot_doc rn [link_el ''base'']"

definition renamed_urdf :: element where
  "renamed_urdf = robot_doc ''s'' [link_el ''base'', link_el ''arm'', example_joint]"

definition nameless_urdf :: element where
  "nameless_urdf = Element ''[document]'' [] [Element ''robot'' [] [link_el ''base'']]"

section \<open>Basic facts\<close>

lemma eye3: "eye 3 = [[1, 0, 0], [0, 1, 0], [0, 0, 1]]"
  by (simp add: eye_def upt_rec eval_nat_numeral)

lemma eye4: "eye 4 = [[1, 0, 0, 0], [0, 1, 0, 0], [0, 0, 1, 0], [0, 0, 0, 1]]"
  by (simp add: eye_def upt_rec eval_nat_numeral)

lemma zeros3: "zeros 3 = [0, 0, 0]"
  by (simp add: zeros_def eval_nat_numeral)

lemma length4E: "length xs = 4 \<Longrightarrow> \<exists>a b c d. xs = [a, b, c, d]"
  by (simp add: eval_nat_numeral length_Suc_conv) blast

lemma dot_eye4_row:
  "length r = 4 \<Longrightarrow> map (\<lambda>col. sum_list (map2 (*) r col)) (eye 4) = (r::real list)"
  using length4E [of r] by (auto simp: eye4)

lemma transpose_eye4: "transpose (eye 4) = eye 4"
  by (simp add: eye4)

text \<open>A matrix with four columns times the identity is the matrix.\<close>

lemma dot_eye4: "\<forall>r\<in>set T. length r = 4 \<Longrightarrow> dot T (eye 4) = T"
  by (simp add: dot_def transpose_eye4 dot_eye4_row map_idI)

lemma reference_sel [simp]:
  "fromstring reference = ref_fromstring"
  "matrix_from_euler_xyz reference = ref_matrix_from_euler_xyz"
  "matrix_from_axis_angle reference = ref_matrix_from_axis_angle"
  "transform_from reference = ref_transform_from"
  "concat_tf reference = ref_concat"
  by (simp_all add: reference_def)

text \<open>
  The instance satisfies the unit laws: a rotation by the angle zero about any axis is the
  identity, the transform of the identity rotation and the zero translation is the
  identity, and composing the identity with a transform of four columns gives the transform.
\<close>

lemma reference_unit_laws:
  "matrix_from_axis_angle reference (hstack [ux, uy, uz] [0]) = eye 3"
  "transform_from reference (eye 3) (zeros 3) = eye 4"
  "\<forall>r\<in>set T. length r = 4 \<Longrightarrow> concat_tf reference (eye 4) T = T"
  by (simp_all add: ref_matrix_from_axis_angle_def hstack_def ref_transform_from_def
      ref_concat_def eye3 zeros3 dot_eye4)
    (simp add: eye4)

lemma example_manager_j1:
  "joints example_manager ''j1'' = Some (''arm'', ''base'', example_T, [0, 0, 1])"
  by (simp add: example_manager_def add_joint_def add_transform_def Let_def)

lemma quarter_turn:
  "ref_transform_from (ref_matrix_from_axis_angle (hstack [0, 0, 1] [pi / 2])) (zeros 3) =
     [[0, - 1, 0, 0], [1, 0, 0, 0], [0, 0, 1, 0], [0, 0, 0, 1]]"
  by (simp add: ref_transform_from_def ref_matrix_from_axis_angle_def hstack_def zeros3)

lemma quarter_turn_composed:
  "dot example_T [[0, - 1, 0, 0], [1, 0, 0, 0], [0, 0, 1, 0], [0, 0, 0, 1]] =
     [[0, - 1, 0, 1], [1, 0, 0, 0], [0, 0, 1, 0], [0, 0, 0, 1]]"
  by (simp add: dot_def example_T_def)

section \<open>Setting a joint\<close>

text \<open>
  Claim C1. For a joint registered as (child frame, parent frame, zero transform, axis),
  \<^verbatim>\<open>set_joint\<close> with an angle succeeds and commits, as the edge from the child frame to the
  parent frame, \<^verbatim>\<open>concat\<close> of the joint rotation transform (the rotation built from the stored
  axis and the angle, with zero translation) and the stored zero transform. The joint
  rotation is the first argument of \<^verbatim>\<open>concat\<close>, the one that acts first: whenever
  \<^verbatim>\<open>concat(A2B, B2C)\<close> is the matrix of \<^verbatim>\<open>B2C\<close> times the matrix of \<^verbatim>\<open>A2B\<close>, the committed
  matrix is the zero transform times the joint rotation transform.
\<close>

theorem set_joint_commits_composition:
  assumes "joints m n = Some (c, p, T, ax)"
  shows "set_joint ext n a m =
      (Inr (), add_transform c p
         (concat_tf ext (transform_from ext (matrix_from_axis_angle ext (hstack ax [a])) (zeros 3)) T) m)
    \<and> transforms (snd (set_joint ext n a m)) (c, p) =
      Some (concat_tf ext (transform_from ext (matrix_from_axis_angle ext (hstack ax [a])) (zeros 3)) T)
    \<and> ((\<forall>A2B B2C. concat_tf ext A2B B2C = dot B2C A2B) \<longrightarrow>
        transforms (snd (set_joint ext n a m)) (c, p) =
          Some (dot T (transform_from ext (matrix_from_axis_angle ext (hstack ax [a])) (zeros 3))))"
  using assms by (simp add: set_joint_def add_transform_def Let_def)

text \<open>
  The joint j1 of the example turned by a quarter about the z axis: the committed edge keeps
  the translation (1, 0, 0) of the zero transform and carries the quarter turn.
\<close>

theorem set_joint_commits_composition_witness:
  "joints example_manager ''j1'' = Some (''arm'', ''base'', example_T, [0, 0, 1])
   \<and> (\<forall>A2B B2C. concat_tf reference A2B B2C = dot B2C A2B)
   \<and> transforms (snd (set_joint reference ''j1'' (pi / 2) example_manager)) (''arm'', ''base'') =
       Some [[0, - 1, 0, 1], [1, 0, 0, 0], [0, 0, 1, 0], [0, 0, 0, 1]]"
proof -
  have conv: "\<forall>A2B B2C. concat_tf reference A2B B2C = dot B2C A2B"
    by (simp add: ref_concat_def)
  show ?thesis
    using set_joint_commits_composition [OF example_manager_j1, of reference "pi / 2"] conv
      example_manager_j1
    by (simp add: quarter_turn quarter_turn_composed add_transform_def)
qed

text \<open>
  Claim C2. Provided the library functions satisfy the unit laws (the rotation by zero about
  the axis is the identity, the transform of the identity rotation and the zero translation
  is the identity, and composing the identity with T gives T), \<^verbatim>\<open>set_joint\<close> with the angle
  zero restores the transform T the joint was registered with. \<^verbatim>\<open>add_joint\<close> with T commits T
  as the edge from the child frame to the parent frame and stores the joint, and
  \<^verbatim>\<open>set_joint\<close> with the angle zero then succeeds and commits T again. The same holds in every
  state of the manager in which the joint is registered with T, whatever the edge holds
  there: \<^verbatim>\<open>set_joint\<close> with the angle zero succeeds, commits exactly T, after which the edge
  holds T, and leaves the joints as they were.
\<close>

theorem angle_zero_identity:
  assumes "matrix_from_axis_angle ext (hstack ax [0]) = eye 3"
    and "transform_from ext (eye 3) (zeros 3) = eye 4"
    and "concat_tf ext (eye 4) T = T"
  shows "transforms (add_joint n c p T ax m) (c, p) = Some T
    \<and> joints (add_joint n c p T ax m) n = Some (c, p, T, ax)
    \<and> set_joint ext n 0 (add_joint n c p T ax m) =
        (Inr (), add_transform c p T (add_joint n c p T ax m))
    \<and> transforms (add_transform c p T (add_joint n c p T ax m)) (c, p) = Some T
    \<and> (\<forall>m'. joints m' n = Some (c, p, T, ax) \<longrightarrow>
          set_joint ext n 0 m' = (Inr (), add_transform c p T m')
          \<and> transforms (snd (set_joint ext n 0 m')) (c, p) = Some T
          \<and> joints (snd (set_joint ext n 0 m')) = joints m')"
  using assms by (simp add: set_joint_def add_joint_def add_transform_def Let_def)

theorem angle_zero_identity_witness:
  "matrix_from_axis_angle reference (hstack [0, 0, 1] [0]) = eye 3
   \<and> transform_from reference (eye 3) (zeros 3) = eye 4
   \<and> concat_tf reference (eye 4) example_T = example_T
   \<and> transforms example_manager (''arm'', ''base'') = Some example_T
   \<and> set_joint reference ''j1'' 0 example_manager =
       (Inr (), add_transform ''arm'' ''base'' example_T example_manager)
   \<and> joints (snd (set_joint reference ''j1'' (pi / 2) example_manager)) ''j1'' =
       Some (''arm'', ''base'', example_T, [0, 0, 1])
   \<and> transforms (snd (set_joint reference ''j1'' (pi / 2) example_manager)) (''arm'', ''base'') =
       Some [[0, - 1, 0, 1], [1, 0, 0, 0], [0, 0, 1, 0], [0, 0, 0, 1]]
   \<and> example_T \<noteq> [[0, - 1, 0, 1], [1, 0, 0, 0], [0, 0, 1, 0], [0, 0, 0, 1]]
   \<and> transforms (snd (set_joint reference ''j1'' 0
        (snd (set_joint reference ''j1'' (pi / 2) example_manager)))) (''arm'', ''base'') =
       Some example_T"
proof -
  let ?m1 = "snd (set_joint reference ''j1'' (pi / 2) example_manager)"
  have h1: "matrix_from_axis_angle reference (hstack [0, 0, 1] [0]) = eye 3"
    by (rule reference_unit_laws)
  have h2: "transform_from reference (eye 3) (zeros 3) = eye 4"
    by (rule reference_unit_laws)
  have h3: "concat_tf reference (eye 4) example_T = example_T"
    by (rule reference_unit_laws) (simp add: example_T_def)
  have turned: "?m1 = add_transform ''arm'' ''base''
      [[0, - 1, 0, 1], [1, 0, 0, 0], [0, 0, 1, 0], [0, 0, 0, 1]] example_manager"
    using example_manager_j1
    by (simp add: set_joint_def Let_def ref_concat_def quarter_turn quarter_turn_composed)
  have j: "joints ?m1 ''j1'' = Some (''arm'', ''base'', example_T, [0, 0, 1])"
    unfolding turned using example_manager_j1 by (simp add: add_transform_def)
  have e: "transforms ?m1 (''arm'', ''base'') =
      Some [[0, - 1, 0, 1], [1, 0, 0, 0], [0, 0, 1, 0], [0, 0, 0, 1]]"
    unfolding turned by (simp add: add_transform_def)
  have ne: "example_T \<noteq> [[0, - 1, 0, 1], [1, 0, 0, 0], [0, 0, 1, 0], [0, 0, 0, 1]]"
    by (simp add: example_T_def)
  note t = angle_zero_identity [OF h1 h2 h3, of "''j1''" "''arm''" "''base''" UrdfTransformManager]
  from t have first: "transforms example_manager (''arm'', ''base'') = Some example_T"
    "set_joint reference ''j1'' 0 example_manager =
       (Inr (), add_transform ''arm'' ''base'' example_T example_manager)"
    by (simp_all add: example_manager_def)
  from t j have again: "transforms (snd (set_joint reference ''j1'' 0 ?m1)) (''arm'', ''base'') =
      Some example_T"
    by blast
  from h1 h2 h3 first j e ne again show ?thesis
    by blast
qed

text \<open>
  Claim C7. For a registered joint, \<^verbatim>\<open>set_joint\<close> commits a transform X that depends on the
  stored record and the angle alone: called again with the same name and angle it commits
  the same X, and the edge holds X after either call. No call of \<^verbatim>\<open>set_joint\<close>, whatever
  its name and angle, changes the dictionary of the joints.
\<close>

theorem set_joint_repeatable:
  assumes "joints m n = Some (c, p, T, ax)"
  shows "\<exists>X. set_joint ext n a m = (Inr (), add_transform c p X m)
      \<and> set_joint ext n a (add_transform c p X m) =
          (Inr (), add_transform c p X (add_transform c p X m))
      \<and> transforms (add_transform c p X m) (c, p) = Some X
      \<and> transforms (add_transform c p X (add_transform c p X m)) (c, p) = Some X
      \<and> (\<forall>n' a'. joints (snd (set_joint ext n' a' m)) = joints m)"
proof -
  have reg: "joints (snd (set_joint ext n' a' m)) = joints m" for n' a'
    by (cases "joints m n'") (auto simp: set_joint_def add_transform_def Let_def)
  let ?X = "concat_tf ext (transform_from ext (matrix_from_axis_angle ext (hstack ax [a])) (zeros 3)) T"
  have "set_joint ext n a m = (Inr (), add_transform c p ?X m)"
    using assms by (simp add: set_joint_def Let_def)
  moreover have "set_joint ext n a (add_transform c p ?X m) =
      (Inr (), add_transform c p ?X (add_transform c p ?X m))"
    using assms by (simp add: set_joint_def add_transform_def Let_def)
  moreover have "transforms (add_transform c p ?X m) (c, p) = Some ?X"
    and "transforms (add_transform c p ?X (add_transform c p ?X m)) (c, p) = Some ?X"
    by (simp_all add: add_transform_def)
  ultimately show ?thesis
    using reg by blast
qed

theorem set_joint_repeatable_witness:
  "joints example_manager ''j1'' = Some (''arm'', ''base'', example_T, [0, 0, 1])
   \<and> (\<exists>X. set_joint reference ''j1'' 1 example_manager =
          (Inr (), add_transform ''arm'' ''base'' X example_manager)
      \<and> set_joint reference ''j1'' 1 (add_transform ''arm'' ''base'' X example_manager) =
          (Inr (), add_transform ''arm'' ''base'' X (add_transform ''arm'' ''base'' X example_manager))
      \<and> transforms (add_transform ''arm'' ''base'' X example_manager) (''arm'', ''base'') = Some X
      \<and> joints (snd (set_joint reference ''j1'' 1 example_manager)) = joints example_manager)"
  using set_joint_repeatable [OF example_manager_j1, of reference 1] example_manager_j1
  by blast

section \<open>Loading: the node table\<close>

lemma parse_link_child: "parse_link l rn = Inr nd \<Longrightarrow> get_attr l ''name'' = Some (child nd) \<and> nd = Node (child nd) rn"
  by (auto simp: parse_link_def Node_def split: option.splits)

lemma parse_links_dom:
  "parse_links ls rn nodes = Inr nodes' \<Longrightarrow>
     dom (map_of nodes') = dom (map_of nodes) \<union> {n. \<exists>l\<in>set ls. get_attr l ''name'' = Some n}"
proof (induction ls arbitrary: nodes)
  case Nil
  then show ?case by simp
next
  case (Cons l ls)
  then obtain nd where nd: "parse_link l rn = Inr nd"
    and rest: "parse_links ls rn (AList.update (child nd) nd nodes) = Inr nodes'"
    by (auto split: sum.splits)
  from Cons.IH [OF rest] parse_link_child [OF nd, THEN conjunct1] show ?case
    by (auto simp: update_conv split: if_splits)
qed

lemma parse_links_all_named:
  "\<forall>l\<in>set ls. has_attr l ''name'' \<Longrightarrow> \<exists>nodes'. parse_links ls rn nodes = Inr nodes'"
  by (induction ls arbitrary: nodes) (auto simp: parse_link_def has_attr_def split: option.splits)

lemma load_joint_dom:
  "load_joint ext j nodes = Inr nodes' \<Longrightarrow> dom (map_of nodes') = dom (map_of nodes)"
  by (auto simp: load_joint_def update_conv split: option.splits if_splits sum.splits)

lemma parse_joints_dom:
  "parse_joints ext js nodes = Inr nodes' \<Longrightarrow> dom (map_of nodes') = dom (map_of nodes)"
proof (induction js arbitrary: nodes)
  case Nil
  then show ?case by simp
next
  case (Cons j js)
  then show ?case
    by (auto split: sum.splits dest!: load_joint_dom)
qed

lemma parse_joints_append:
  "parse_joints ext (pre @ js) nodes =
     (case parse_joints ext pre nodes of Inl e \<Rightarrow> Inl e | Inr nodes1 \<Rightarrow> parse_joints ext js nodes1)"
  by (induction pre arbitrary: nodes) (auto split: sum.splits)

lemma load_urdf_joint_error:
  assumes "find_el urdf ''robot'' = Some robot" and "get_attr robot ''name'' = Some rn"
    and "parse_links (findAll robot ''link'') rn [] = Inr nodes"
    and "findAll robot ''joint'' = pre @ joint # post"
    and "parse_joints ext pre nodes = Inr nodes1"
    and "load_joint ext joint nodes1 = Inl e"
  shows "load_urdf ext urdf m = (Inl e, m)"
  using assms by (simp add: load_urdf_def parse_joints_append)

lemma load_urdf_error_unchanged:
  "load_urdf ext urdf m = (Inl e, m') \<Longrightarrow> m' = m"
  by (auto simp: load_urdf_def split: option.splits sum.splits)

lemma set_link_names:
  "set (link_names robot) = {n. \<exists>l\<in>set (findAll robot ''link''). get_attr l ''name'' = Some n}"
  by (force simp: link_names_def List.map_filter_def)

lemma parse_links_link_names:
  "parse_links (findAll robot ''link'') rn [] = Inr nodes \<Longrightarrow> dom (map_of nodes) = set (link_names robot)"
  by (drule parse_links_dom) (simp add: set_link_names)

lemma descendants_simps2 [simp]:
  "descendants (Element t a []) = []"
  "descendants (Element t a (c # cs)) = c # descendants c @ descendants (Element t a cs)"
  by simp_all

text \<open>
  Claim C4. Take a document whose robot element has a name and whose link elements all
  have names, and a joint element of the robot such that the joint elements before it are
  accepted and that has a name, a type and a parent element with a link attribute. If the
  parent names no link that a link element of the robot declares, \<^verbatim>\<open>load_urdf\<close> raises
  "Parent link ... of joint ... is not defined." and commits nothing. If the parent link is
  declared and the child element names a link that is not, it raises "Child link ... of
  joint ... is not defined.". If both are declared, both are resolved and the joint goes on
  to \<^verbatim>\<open>_parse_joint\<close>. The declared links are those of all link elements of the robot,
  wherever they stand relative to the joint element.
\<close>

theorem link_resolution:
  assumes robot: "find_el urdf ''robot'' = Some robot" and rn: "get_attr robot ''name'' = Some rn"
    and links: "parse_links (findAll robot ''link'') rn [] = Inr nodes"
    and js: "findAll robot ''joint'' = pre @ joint # post"
    and pre: "parse_joints ext pre nodes = Inr nodes1"
    and jn: "get_attr joint ''name'' = Some jn" and jt: "has_attr joint ''type''"
    and pe: "find_el joint ''parent'' = Some pe" and pn: "get_attr pe ''link'' = Some pn"
  shows "(pn \<notin> set (link_names robot) \<longrightarrow>
       load_urdf ext urdf m =
         (Inl (UrdfException (''Parent link '' @ quoted pn @ '' of joint '' @ quoted jn
            @ '' is not defined.'')), m))
    \<and> (pn \<in> set (link_names robot) \<longrightarrow>
       (\<forall>ce cn. find_el joint ''child'' = Some ce \<and> get_attr ce ''link'' = Some cn \<longrightarrow>
          (cn \<notin> set (link_names robot) \<longrightarrow>
             load_urdf ext urdf m =
               (Inl (UrdfException (''Child link '' @ quoted cn @ '' of joint '' @ quoted jn
                  @ '' is not defined.'')), m))
        \<and> (cn \<in> set (link_names robot) \<longrightarrow>
             (\<exists>nd. map_of nodes1 cn = Some nd \<and>
                load_joint ext joint nodes1 =
                  (case parse_joint ext joint nd pn of
                     Inl e \<Rightarrow> Inl e
                   | Inr nd' \<Rightarrow> Inr (AList.update cn nd' nodes1))))))"
proof -
  have dom1: "dom (map_of nodes1) = set (link_names robot)"
    using parse_joints_dom [OF pre] parse_links_link_names [OF links] by simp
  have err: "load_joint ext joint nodes1 = Inl e \<Longrightarrow> load_urdf ext urdf m = (Inl e, m)" for e
    by (rule load_urdf_joint_error [OF robot rn links js pre])
  have p1: "pn \<notin> set (link_names robot) \<Longrightarrow>
      load_joint ext joint nodes1 = Inl (UrdfException (''Parent link '' @ quoted pn
        @ '' of joint '' @ quoted jn @ '' is not defined.''))"
    using dom1 jn jt pe pn by (auto simp: load_joint_def domIff)
  have p2: "load_joint ext joint nodes1 = Inl (UrdfException (''Child link '' @ quoted cn
        @ '' of joint '' @ quoted jn @ '' is not defined.''))"
    if "pn \<in> set (link_names robot)" "find_el joint ''child'' = Some ce"
      "get_attr ce ''link'' = Some cn" "cn \<notin> set (link_names robot)" for ce cn
  proof -
    from that dom1 have "map_of nodes1 pn \<noteq> None" "map_of nodes1 cn = None"
      by (auto simp: domIff [symmetric])
    with that jn jt pe pn show ?thesis
      by (simp add: load_joint_def)
  qed
  have p3: "\<exists>nd. map_of nodes1 cn = Some nd \<and>
        load_joint ext joint nodes1 =
          (case parse_joint ext joint nd pn of
             Inl e \<Rightarrow> Inl e
           | Inr nd' \<Rightarrow> Inr (AList.update cn nd' nodes1))"
    if "pn \<in> set (link_names robot)" "find_el joint ''child'' = Some ce"
      "get_attr ce ''link'' = Some cn" "cn \<in> set (link_names robot)" for ce cn
  proof -
    from that dom1 have "pn \<in> dom (map_of nodes1)" "cn \<in> dom (map_of nodes1)"
      by simp_all
    then obtain nd pd where "map_of nodes1 pn = Some pd" "map_of nodes1 cn = Some nd"
      by blast
    with that jn jt pe pn show ?thesis
      by (simp add: load_joint_def)
  qed
  show ?thesis
    using p1 p2 p3 err by blast
qed

lemmas doc_simps = robot_doc_def link_el_def joint_el_def find_el_def findAll_def get_attr_def
  has_attr_def

lemma link_names_typed: "link_names (Element ''robot'' [(''name'', ''r'')]
     [joint_el ''j1'' t ''base'' ''arm'' [], link_el ''base'', link_el ''arm'']) = [''base'', ''arm'']"
  by (simp add: link_names_def List.map_filter_def doc_simps)

theorem link_resolution_witness:
  "load_urdf reference unknown_parent_urdf UrdfTransformManager =
     (Inl (UrdfException ''Parent link 'world' of joint 'j1' is not defined.''), UrdfTransformManager)
   \<and> ''world'' \<notin> set (link_names (Element ''robot'' [(''name'', ''r'')]
        [joint_el ''j1'' ''fixed'' ''world'' ''arm'' [], link_el ''arm'']))
   \<and> set [''base'', ''arm''] \<subseteq> set (link_names (Element ''robot'' [(''name'', ''r'')]
        [joint_el ''j1'' ''fixed'' ''base'' ''arm'' [], link_el ''base'', link_el ''arm'']))
   \<and> (\<exists>nd. load_joint reference (joint_el ''j1'' ''fixed'' ''base'' ''arm'' [])
          [(''base'', Node ''base'' ''r''), (''arm'', Node ''arm'' ''r'')] =
        (case parse_joint reference (joint_el ''j1'' ''fixed'' ''base'' ''arm'' []) nd ''base'' of
           Inl e \<Rightarrow> Inl e
         | Inr nd' \<Rightarrow> Inr (AList.update ''arm'' nd'
             [(''base'', Node ''base'' ''r''), (''arm'', Node ''arm'' ''r'')])))"
proof -
  let ?j = "joint_el ''j1'' ''fixed'' ''world'' ''arm'' []"
  let ?r = "Element ''robot'' [(''name'', ''r'')] [?j, link_el ''arm'']"
  have a1: "find_el unknown_parent_urdf ''robot'' = Some ?r"
    by (simp add: unknown_parent_urdf_def doc_simps)
  have a2: "get_attr ?r ''name'' = Some ''r''"
    by (simp add: doc_simps)
  have a3: "parse_links (findAll ?r ''link'') ''r'' [] = Inr [(''arm'', Node ''arm'' ''r'')]"
    by (simp add: doc_simps parse_link_def Node_def)
  have a4: "findAll ?r ''joint'' = [] @ ?j # []"
    by (simp add: doc_simps)
  have a5: "parse_joints reference [] [(''arm'', Node ''arm'' ''r'')] = Inr [(''arm'', Node ''arm'' ''r'')]"
    by simp
  have a6: "get_attr ?j ''name'' = Some ''j1''" and a7: "has_attr ?j ''type''"
    and a8: "find_el ?j ''parent'' = Some (Element ''parent'' [(''link'', ''world'')] [])"
    and a9: "get_attr (Element ''parent'' [(''link'', ''world'')] []) ''link'' = Some ''world''"
    by (simp_all add: doc_simps)
  have n: "''world'' \<notin> set (link_names ?r)"
    by (simp add: link_names_def List.map_filter_def doc_simps)
  let ?k = "joint_el ''j1'' ''fixed'' ''base'' ''arm'' []"
  let ?s = "Element ''robot'' [(''name'', ''r'')] [?k, link_el ''base'', link_el ''arm'']"
  let ?nodes = "[(''base'', Node ''base'' ''r''), (''arm'', Node ''arm'' ''r'')]"
  have b1: "find_el (typed_urdf ''fixed'') ''robot'' = Some ?s"
    by (simp add: typed_urdf_def doc_simps)
  have b2: "get_attr ?s ''name'' = Some ''r''"
    by (simp add: doc_simps)
  have b3: "parse_links (findAll ?s ''link'') ''r'' [] = Inr ?nodes"
    by (simp add: doc_simps parse_link_def Node_def)
  have b4: "findAll ?s ''joint'' = [] @ ?k # []"
    by (simp add: doc_simps)
  have b5: "parse_joints reference [] ?nodes = Inr ?nodes"
    by simp
  have b6: "get_attr ?k ''name'' = Some ''j1''" and b7: "has_attr ?k ''type''"
    and b8: "find_el ?k ''parent'' = Some (Element ''parent'' [(''link'', ''base'')] [])"
    and b9: "get_attr (Element ''parent'' [(''link'', ''base'')] []) ''link'' = Some ''base''"
    and b10: "find_el ?k ''child'' = Some (Element ''child'' [(''link'', ''arm'')] [])"
    and b11: "get_attr (Element ''child'' [(''link'', ''arm'')] []) ''link'' = Some ''arm''"
    by (simp_all add: doc_simps)
  have y: "set [''base'', ''arm''] \<subseteq> set (link_names ?s)"
    by (simp add: link_names_typed)
  from link_resolution [OF a1 a2 a3 a4 a5 a6 a7 a8 a9, of UrdfTransformManager] n
  have first: "load_urdf reference unknown_parent_urdf UrdfTransformManager =
     (Inl (UrdfException ''Parent link 'world' of joint 'j1' is not defined.''), UrdfTransformManager)"
    by (simp add: quoted_def)
  from link_resolution [OF b1 b2 b3 b4 b5 b6 b7 b8 b9, of UrdfTransformManager] y b10 b11
  have second: "\<exists>nd. load_joint reference ?k ?nodes =
        (case parse_joint reference ?k nd ''base'' of
           Inl e \<Rightarrow> Inl e
         | Inr nd' \<Rightarrow> Inr (AList.update ''arm'' nd' ?nodes))"
    by auto
  from first n y second show ?thesis
    by blast
qed

section \<open>Loading: the joint elements\<close>

lemma parse_joint_unsupported:
  assumes "get_attr joint ''name'' = Some jn" "get_attr joint ''type'' = Some jt"
   "jt \<in> set [''planar'', ''floating'', ''continuous'', ''prismatic'']"
  shows "parse_joint ext joint nd pn = Inl (UrdfException (''Unsupported joint type '' @ quoted jt))"
  unfolding parse_joint_def getitem_def using assms by (simp only: option.case sum.case if_True)

lemma parse_joint_invalid:
  assumes "get_attr joint ''name'' = Some jn" "get_attr joint ''type'' = Some jt"
   "jt \<notin> set [''planar'', ''floating'', ''continuous'', ''prismatic'']"
   "jt \<notin> set [''revolute'', ''fixed'']"
  shows "parse_joint ext joint nd pn =
    Inl (UrdfException (''Joint type '' @ quoted jt @ '' is not allowed in a URDF document.''))"
  unfolding parse_joint_def getitem_def using assms
  by (simp only: option.case sum.case if_True if_False not_False_eq_True)

lemma supported_not_unsupported:
  "jt \<in> set [''revolute'', ''fixed''] \<Longrightarrow>
     jt \<notin> set [''planar'', ''floating'', ''continuous'', ''prismatic'']"
  by auto

lemma parse_joint_supported:
  assumes "get_attr joint ''name'' = Some jn" "get_attr joint ''type'' = Some jt"
   "jt \<in> set [''revolute'', ''fixed'']"
  shows "parse_joint ext joint nd pn =
    Inr (nd\<lparr>joint_name := Some jn, joint_type := jt, parent := pn,
        child2parent := transform_from ext
          (case find_el joint ''origin'' of
             None \<Rightarrow> eye 3
           | Some og \<Rightarrow>
               (case get_attr og ''rpy'' of
                  None \<Rightarrow> eye 3
                | Some s \<Rightarrow> transpose (matrix_from_euler_xyz ext (fromstring ext s))))
          (case find_el joint ''origin'' of
             None \<Rightarrow> zeros 3
           | Some og \<Rightarrow>
               (case get_attr og ''xyz'' of
                  None \<Rightarrow> zeros 3
                | Some s \<Rightarrow> fromstring ext s)),
        joint_axis := Some
          (if jt = ''revolute'' then
             (case find_el joint ''axis'' of
                None \<Rightarrow> [1, 0, 0]
              | Some ax \<Rightarrow>
                  (case get_attr ax ''xyz'' of
                     None \<Rightarrow> [1, 0, 0]
                   | Some s \<Rightarrow> fromstring ext s))
           else [1, 0, 0])\<rparr>)"
  unfolding parse_joint_def getitem_def
  using assms supported_not_unsupported [OF assms(3)]
  by (simp only: option.case sum.case if_True if_False not_True_eq_False Let_def)

lemma parse_joint_cases:
  assumes "parse_joint ext joint nd pn = Inr nd'"
  shows "\<exists>jn jt. get_attr joint ''name'' = Some jn \<and> get_attr joint ''type'' = Some jt
     \<and> jt \<in> set [''revolute'', ''fixed'']"
proof -
  from assms obtain jn where jn: "get_attr joint ''name'' = Some jn"
    by (cases "get_attr joint ''name''") (simp_all add: parse_joint_def getitem_def)
  from assms jn obtain jt where jt: "get_attr joint ''type'' = Some jt"
    by (cases "get_attr joint ''type''") (simp_all add: parse_joint_def getitem_def)
  have "jt \<in> set [''revolute'', ''fixed'']"
  proof (rule ccontr)
    assume n: "jt \<notin> set [''revolute'', ''fixed'']"
    show False
    proof (cases "jt \<in> set [''planar'', ''floating'', ''continuous'', ''prismatic'']")
      case True
      from parse_joint_unsupported [OF jn jt True, of ext nd pn] assms show False by simp
    next
      case False
      from parse_joint_invalid [OF jn jt False n, of ext nd pn] assms show False by simp
    qed
  qed
  with jn jt show ?thesis by blast
qed

text \<open>
  Claim C5. Take a joint element that is reached (the robot and the links are accepted, and
  so are the joint elements before it) and whose name, type, parent link and child link
  pass their checks. If its type is planar, floating, continuous or prismatic,
  \<^verbatim>\<open>load_urdf\<close> raises "Unsupported joint type ..."; if it is any other string than revolute
  and fixed, it raises "Joint type ... is not allowed in a URDF document."; if it is
  revolute or fixed, the joint is accepted and its node carries the name and the type.
\<close>

theorem joint_type_check:
  assumes robot: "find_el urdf ''robot'' = Some robot" and rn: "get_attr robot ''name'' = Some rn"
    and links: "parse_links (findAll robot ''link'') rn [] = Inr nodes"
    and js: "findAll robot ''joint'' = pre @ joint # post"
    and pre: "parse_joints ext pre nodes = Inr nodes1"
    and jn: "get_attr joint ''name'' = Some jn" and jt: "get_attr joint ''type'' = Some jt"
    and pe: "find_el joint ''parent'' = Some pe" and pn: "get_attr pe ''link'' = Some pn"
    and pd: "map_of nodes1 pn = Some pd"
    and ce: "find_el joint ''child'' = Some ce" and cn: "get_attr ce ''link'' = Some cn"
    and nd: "map_of nodes1 cn = Some nd"
  shows "(jt \<in> set [''planar'', ''floating'', ''continuous'', ''prismatic''] \<longrightarrow>
       load_urdf ext urdf m = (Inl (UrdfException (''Unsupported joint type '' @ quoted jt)), m))
    \<and> (jt \<notin> set [''planar'', ''floating'', ''continuous'', ''prismatic'']
        \<and> jt \<notin> set [''revolute'', ''fixed''] \<longrightarrow>
       load_urdf ext urdf m =
         (Inl (UrdfException (''Joint type '' @ quoted jt @ '' is not allowed in a URDF document.'')), m))
    \<and> (jt \<in> set [''revolute'', ''fixed''] \<longrightarrow>
       (\<exists>nd'. load_joint ext joint nodes1 = Inr (AList.update cn nd' nodes1)
          \<and> joint_type nd' = jt \<and> joint_name nd' = Some jn))"
proof -
  have err: "load_joint ext joint nodes1 = Inl e \<Longrightarrow> load_urdf ext urdf m = (Inl e, m)" for e
    by (rule load_urdf_joint_error [OF robot rn links js pre])
  have lj: "load_joint ext joint nodes1 =
      (case parse_joint ext joint nd pn of
         Inl e \<Rightarrow> Inl e
       | Inr nd' \<Rightarrow> Inr (AList.update cn nd' nodes1))"
    using jn jt pe pn pd ce cn nd by (simp add: load_joint_def has_attr_def)
  have t1: "load_joint ext joint nodes1 =
      Inl (UrdfException (''Unsupported joint type '' @ quoted jt))"
    if "jt \<in> set [''planar'', ''floating'', ''continuous'', ''prismatic'']"
    unfolding lj parse_joint_unsupported [OF jn jt that] by simp
  have t2: "load_joint ext joint nodes1 =
      Inl (UrdfException (''Joint type '' @ quoted jt @ '' is not allowed in a URDF document.''))"
    if "jt \<notin> set [''planar'', ''floating'', ''continuous'', ''prismatic'']"
      and "jt \<notin> set [''revolute'', ''fixed'']"
    unfolding lj parse_joint_invalid [OF jn jt that] by simp
  have t3: "\<exists>nd'. load_joint ext joint nodes1 = Inr (AList.update cn nd' nodes1)
          \<and> joint_type nd' = jt \<and> joint_name nd' = Some jn"
    if "jt \<in> set [''revolute'', ''fixed'']"
  proof -
    from parse_joint_supported [OF jn jt that, of ext nd pn]
    obtain nd' where p: "parse_joint ext joint nd pn = Inr nd'"
      and "joint_type nd' = jt" and "joint_name nd' = Some jn"
      by simp
    then show ?thesis
      unfolding lj by auto
  qed
  show ?thesis
  proof (intro conjI impI)
    assume "jt \<in> set [''planar'', ''floating'', ''continuous'', ''prismatic'']"
    then show "load_urdf ext urdf m =
        (Inl (UrdfException (''Unsupported joint type '' @ quoted jt)), m)"
      by (intro err t1)
  next
    assume "jt \<notin> set [''planar'', ''floating'', ''continuous'', ''prismatic'']
        \<and> jt \<notin> set [''revolute'', ''fixed'']"
    then show "load_urdf ext urdf m =
        (Inl (UrdfException (''Joint type '' @ quoted jt @ '' is not allowed in a URDF document.'')), m)"
      by (intro err t2) blast+
  next
    assume "jt \<in> set [''revolute'', ''fixed'']"
    then show "\<exists>nd'. load_joint ext joint nodes1 = Inr (AList.update cn nd' nodes1)
          \<and> joint_type nd' = jt \<and> joint_name nd' = Some jn"
      by (rule t3)
  qed
qed

text \<open>
  Claim C9, as amended. A call of \<^verbatim>\<open>load_urdf\<close> that raises leaves the manager as it was:
  every check precedes the first commit, so nothing is committed and no rollback is needed.
  The first joint element that is refused ends the load with its exception, whatever
  follows it.
\<close>

theorem load_urdf_error_commits_nothing:
  "(load_urdf ext urdf m = (Inl e, m') \<longrightarrow> m' = m)
   \<and> (find_el urdf ''robot'' = Some robot \<and> get_attr robot ''name'' = Some rn
        \<and> parse_links (findAll robot ''link'') rn [] = Inr nodes
        \<and> findAll robot ''joint'' = pre @ joint # post
        \<and> parse_joints ext pre nodes = Inr nodes1
        \<and> load_joint ext joint nodes1 = Inl e \<longrightarrow>
      load_urdf ext urdf m = (Inl e, m))"
proof (intro conjI impI)
  assume "load_urdf ext urdf m = (Inl e, m')"
  then show "m' = m"
    by (rule load_urdf_error_unchanged)
next
  assume "find_el urdf ''robot'' = Some robot \<and> get_attr robot ''name'' = Some rn
        \<and> parse_links (findAll robot ''link'') rn [] = Inr nodes
        \<and> findAll robot ''joint'' = pre @ joint # post
        \<and> parse_joints ext pre nodes = Inr nodes1
        \<and> load_joint ext joint nodes1 = Inl e"
  then show "load_urdf ext urdf m = (Inl e, m)"
    by (intro load_urdf_joint_error [of urdf robot rn nodes pre joint post ext nodes1 e m]) simp_all
qed

text \<open>
  Claim C9 as stated asks for a failing load that leaves some edges committed. There is
  none.
\<close>

theorem partial_load_counterexample:
  "\<not> (\<exists>ext urdf m e m'. load_urdf ext urdf m = (Inl e, m') \<and> m' \<noteq> m)"
proof
  assume "\<exists>ext urdf m e m'. load_urdf ext urdf m = (Inl e, m') \<and> m' \<noteq> m"
  then obtain ext urdf m e m' where "load_urdf ext urdf m = (Inl e, m')" and "m' \<noteq> m"
    by blast
  then show False
    using load_urdf_error_unchanged [of ext urdf m e m'] by simp
qed

text \<open>
  Claim C3. When \<^verbatim>\<open>_parse_joint\<close> accepts a joint, the node's \<^verbatim>\<open>child2parent\<close> is
  \<^verbatim>\<open>transform_from\<close> of a rotation and a translation. With an origin element that has an
  rpy attribute the rotation is the transpose of the matrix that \<^verbatim>\<open>matrix_from_euler_xyz\<close>
  builds from the parsed angles; without the attribute, or without an origin element, it is
  the identity. With an xyz attribute the translation is the parsed vector; without the
  attribute, or without an origin element, it is (0, 0, 0).
\<close>

theorem parse_joint_origin:
  assumes "parse_joint ext joint nd pn = Inr nd'"
  shows "(\<forall>og r t. find_el joint ''origin'' = Some og \<and> get_attr og ''rpy'' = Some r
            \<and> get_attr og ''xyz'' = Some t \<longrightarrow>
          child2parent nd' = transform_from ext
            (transpose (matrix_from_euler_xyz ext (fromstring ext r))) (fromstring ext t))
    \<and> (\<forall>og r. find_el joint ''origin'' = Some og \<and> get_attr og ''rpy'' = Some r
            \<and> get_attr og ''xyz'' = None \<longrightarrow>
          child2parent nd' = transform_from ext
            (transpose (matrix_from_euler_xyz ext (fromstring ext r))) (zeros 3))
    \<and> (\<forall>og t. find_el joint ''origin'' = Some og \<and> get_attr og ''rpy'' = None
            \<and> get_attr og ''xyz'' = Some t \<longrightarrow>
          child2parent nd' = transform_from ext (eye 3) (fromstring ext t))
    \<and> (\<forall>og. find_el joint ''origin'' = Some og \<and> get_attr og ''rpy'' = None
            \<and> get_attr og ''xyz'' = None \<longrightarrow>
          child2parent nd' = transform_from ext (eye 3) (zeros 3))
    \<and> (find_el joint ''origin'' = None \<longrightarrow>
          child2parent nd' = transform_from ext (eye 3) (zeros 3))"
  using assms
  by (auto simp: parse_joint_def Let_def split: sum.splits if_splits)

lemma euler_yaw_one:
  "ref_matrix_from_euler_xyz [0, 0, 1] = [[cos 1, - sin 1, 0], [sin 1, cos 1, 0], [0, 0, 1]]"
  by (simp add: ref_matrix_from_euler_xyz_def dot_def)

lemma ref_fromstring_001: "ref_fromstring ''0 0 1'' = [0, 0, 1]"
  by (simp add: ref_fromstring_def digit_of_def)

theorem parse_joint_origin_witness:
  "(\<exists>nd'. parse_joint reference rpy_joint (Node ''arm'' ''r'') ''base'' = Inr nd'
      \<and> find_el rpy_joint ''origin'' = Some (Element ''origin'' [(''rpy'', ''0 0 1'')] [])
      \<and> child2parent nd' =
          ref_transform_from (transpose (ref_matrix_from_euler_xyz [0, 0, 1])) (zeros 3)
      \<and> rotation_block (child2parent nd') = [[cos 1, sin 1, 0], [- sin 1, cos 1, 0], [0, 0, 1]]
      \<and> translation_block (child2parent nd') = [0, 0, 0])
   \<and> ref_matrix_from_euler_xyz [0, 0, 1] = [[cos 1, - sin 1, 0], [sin 1, cos 1, 0], [0, 0, 1]]"
proof -
  let ?og = "Element ''origin'' [(''rpy'', ''0 0 1'')] []"
  have jn: "get_attr rpy_joint ''name'' = Some ''j2''"
    and jt: "get_attr rpy_joint ''type'' = Some ''fixed''"
    and og: "find_el rpy_joint ''origin'' = Some ?og"
    and rpy: "get_attr ?og ''rpy'' = Some ''0 0 1''" and xyz: "get_attr ?og ''xyz'' = None"
    by (simp_all add: rpy_joint_def doc_simps)
  have "''fixed'' \<in> set [''revolute'', ''fixed'']"
    by simp
  from parse_joint_supported [OF jn jt this, of reference "Node ''arm'' ''r''" "''base''"]
  obtain nd' where p: "parse_joint reference rpy_joint (Node ''arm'' ''r'') ''base'' = Inr nd'"
    by blast
  from parse_joint_origin [OF p] og rpy xyz
  have c: "child2parent nd' =
      ref_transform_from (transpose (ref_matrix_from_euler_xyz [0, 0, 1])) (zeros 3)"
    by (simp add: ref_fromstring_001)
  have r: "rotation_block (child2parent nd') = [[cos 1, sin 1, 0], [- sin 1, cos 1, 0], [0, 0, 1]]"
    and t: "translation_block (child2parent nd') = [0, 0, 0]"
    unfolding c
    by (simp_all add: euler_yaw_one ref_transform_from_def zeros3 rotation_block_def
        translation_block_def)
  from p og c r t euler_yaw_one show ?thesis
    by blast
qed

lemma typed_urdf_facts:
  "find_el (typed_urdf t) ''robot'' = Some (Element ''robot'' [(''name'', ''r'')]
     [joint_el ''j1'' t ''base'' ''arm'' [], link_el ''base'', link_el ''arm''])"
  "get_attr (Element ''robot'' [(''name'', ''r'')]
     [joint_el ''j1'' t ''base'' ''arm'' [], link_el ''base'', link_el ''arm'']) ''name'' = Some ''r''"
  "parse_links (findAll (Element ''robot'' [(''name'', ''r'')]
     [joint_el ''j1'' t ''base'' ''arm'' [], link_el ''base'', link_el ''arm'']) ''link'') ''r'' [] =
     Inr [(''base'', Node ''base'' ''r''), (''arm'', Node ''arm'' ''r'')]"
  "findAll (Element ''robot'' [(''name'', ''r'')]
     [joint_el ''j1'' t ''base'' ''arm'' [], link_el ''base'', link_el ''arm'']) ''joint'' =
     [] @ joint_el ''j1'' t ''base'' ''arm'' [] # []"
  "get_attr (joint_el ''j1'' t ''base'' ''arm'' []) ''name'' = Some ''j1''"
  "get_attr (joint_el ''j1'' t ''base'' ''arm'' []) ''type'' = Some t"
  "find_el (joint_el ''j1'' t ''base'' ''arm'' []) ''parent'' = Some (Element ''parent'' [(''link'', ''base'')] [])"
  "find_el (joint_el ''j1'' t ''base'' ''arm'' []) ''child'' = Some (Element ''child'' [(''link'', ''arm'')] [])"
  by (simp_all add: typed_urdf_def doc_simps parse_link_def Node_def)

theorem joint_type_check_witness:
  "load_urdf reference (typed_urdf ''continuous'') UrdfTransformManager =
     (Inl (UrdfException (''Unsupported joint type '' @ quoted ''continuous'')), UrdfTransformManager)
   \<and> load_urdf reference (typed_urdf ''screw'') UrdfTransformManager =
     (Inl (UrdfException (''Joint type '' @ quoted ''screw'' @ '' is not allowed in a URDF document.'')),
      UrdfTransformManager)
   \<and> (\<exists>nd'. load_joint reference (joint_el ''j1'' ''revolute'' ''base'' ''arm'' [])
          [(''base'', Node ''base'' ''r''), (''arm'', Node ''arm'' ''r'')] =
        Inr (AList.update ''arm'' nd' [(''base'', Node ''base'' ''r''), (''arm'', Node ''arm'' ''r'')])
      \<and> joint_type nd' = ''revolute'' \<and> joint_name nd' = Some ''j1'')"
proof -
  let ?nodes = "[(''base'', Node ''base'' ''r''), (''arm'', Node ''arm'' ''r'')]"
  have pj: "parse_joints reference [] ?nodes = Inr ?nodes"
    by simp
  have pl: "get_attr (Element ''parent'' [(''link'', ''base'')] []) ''link'' = Some ''base''"
    and cl: "get_attr (Element ''child'' [(''link'', ''arm'')] []) ''link'' = Some ''arm''"
    and pd: "map_of ?nodes ''base'' = Some (Node ''base'' ''r'')"
    and cd: "map_of ?nodes ''arm'' = Some (Node ''arm'' ''r'')"
    by (simp_all add: get_attr_def)
  note jtc = joint_type_check [OF typed_urdf_facts(1-4) pj typed_urdf_facts(5-7) pl pd
      typed_urdf_facts(8) cl cd, of _ UrdfTransformManager]
  from jtc [of "''continuous''"] have a: "load_urdf reference (typed_urdf ''continuous'') UrdfTransformManager =
     (Inl (UrdfException (''Unsupported joint type '' @ quoted ''continuous'')), UrdfTransformManager)"
    by simp
  from jtc [of "''screw''"] have b: "load_urdf reference (typed_urdf ''screw'') UrdfTransformManager =
     (Inl (UrdfException (''Joint type '' @ quoted ''screw'' @ '' is not allowed in a URDF document.'')),
      UrdfTransformManager)"
    by simp
  from jtc [of "''revolute''"] have c: "\<exists>nd'. load_joint reference (joint_el ''j1'' ''revolute'' ''base'' ''arm'' [])
          ?nodes = Inr (AList.update ''arm'' nd' ?nodes)
      \<and> joint_type nd' = ''revolute'' \<and> joint_name nd' = Some ''j1''"
    by simp
  from a b c show ?thesis
    by blast
qed

theorem load_urdf_error_commits_nothing_witness:
  "load_urdf reference abort_urdf example_manager =
     (Inl (UrdfException (''Parent link '' @ quoted ''world'' @ '' of joint '' @ quoted ''j1''
        @ '' is not defined.'')), example_manager)"
proof -
  let ?j1 = "joint_el ''j1'' ''fixed'' ''world'' ''arm'' []"
  let ?j2 = "joint_el ''j2'' ''screw'' ''arm'' ''arm'' []"
  let ?r = "Element ''robot'' [(''name'', ''r'')] [link_el ''arm'', ?j1, ?j2]"
  let ?nodes = "[(''arm'', Node ''arm'' ''r'')]"
  have a1: "find_el abort_urdf ''robot'' = Some ?r"
    and a2: "get_attr ?r ''name'' = Some ''r''"
    and a3: "parse_links (findAll ?r ''link'') ''r'' [] = Inr ?nodes"
    and a4: "findAll ?r ''joint'' = [] @ ?j1 # [?j2]"
    by (simp_all add: abort_urdf_def doc_simps parse_link_def Node_def)
  have a5: "parse_joints reference [] ?nodes = Inr ?nodes"
    by simp
  have a6: "load_joint reference ?j1 ?nodes =
      Inl (UrdfException (''Parent link '' @ quoted ''world'' @ '' of joint '' @ quoted ''j1''
        @ '' is not defined.''))"
    by (simp add: load_joint_def doc_simps)
  from load_urdf_error_commits_nothing [of reference abort_urdf example_manager _ example_manager
      ?r "''r''" ?nodes "[]" ?j1 "[?j2]" ?nodes] a1 a2 a3 a4 a5 a6
  show ?thesis
    by blast
qed

section \<open>Loading: the committed edges and joints\<close>

lemma set_alist_update: "set (AList.update k v al) \<subseteq> insert (k, v) (set al)"
  by (induction al) auto

lemma keyed_Nil: "keyed []"
  by (simp add: keyed_def)

lemma keyed_update: "keyed nodes \<Longrightarrow> child nd = k \<Longrightarrow> keyed (AList.update k nd nodes)"
  unfolding keyed_def
  using set_alist_update [of k nd nodes] by (auto simp: distinct_update)

lemma keyed_map_of: "keyed nodes \<Longrightarrow> map_of nodes k = Some nd \<Longrightarrow> child nd = k"
  unfolding keyed_def by (auto dest: map_of_SomeD)

lemma keyed_children: "keyed nodes \<Longrightarrow> map child (map snd nodes) = map fst nodes"
  unfolding keyed_def by (induction nodes) auto

lemma parse_joint_result:
  assumes "parse_joint ext joint nd pn = Inr nd'"
  shows "from_joint joint nd' \<and> child nd' = child nd \<and> parent nd' = pn
    \<and> joint_type nd' \<in> set [''revolute'', ''fixed'']"
proof -
  from parse_joint_cases [OF assms] obtain jn jt
    where jn: "get_attr joint ''name'' = Some jn" and jt: "get_attr joint ''type'' = Some jt"
      and s: "jt \<in> set [''revolute'', ''fixed'']"
    by blast
  from parse_joint_supported [OF jn jt s, of ext nd pn] assms jn jt s show ?thesis
    by (auto simp: from_joint_def)
qed

lemma load_joint_Inr:
  assumes "load_joint ext joint nodes = Inr nodes'"
  shows "\<exists>cn nd pn nd'. child_link joint = Some cn \<and> map_of nodes cn = Some nd
     \<and> parse_joint ext joint nd pn = Inr nd' \<and> nodes' = AList.update cn nd' nodes"
  using assms
  by (auto simp: load_joint_def child_link_def split: option.splits if_splits sum.splits)

lemma parse_links_keyed:
  "parse_links ls rn nodes = Inr nodes' \<Longrightarrow> keyed nodes \<Longrightarrow> keyed nodes'"
proof (induction ls arbitrary: nodes)
  case Nil
  then show ?case by simp
next
  case (Cons l ls)
  then obtain nd where nd: "parse_link l rn = Inr nd"
    and rest: "parse_links ls rn (AList.update (child nd) nd nodes) = Inr nodes'"
    by (auto split: sum.splits)
  from Cons.IH [OF rest] Cons.prems(2) show ?case
    by (simp add: keyed_update)
qed

lemma load_joint_keyed:
  assumes "load_joint ext joint nodes = Inr nodes'" and "keyed nodes"
  shows "keyed nodes'"
proof -
  from load_joint_Inr [OF assms(1)] obtain cn nd pn nd'
    where m: "map_of nodes cn = Some nd" and p: "parse_joint ext joint nd pn = Inr nd'"
      and n: "nodes' = AList.update cn nd' nodes"
    by blast
  from parse_joint_result [OF p] keyed_map_of [OF assms(2) m] have "child nd' = cn"
    by simp
  with assms(2) n show ?thesis
    by (simp add: keyed_update)
qed

lemma parse_joints_keyed:
  "parse_joints ext js nodes = Inr nodes' \<Longrightarrow> keyed nodes \<Longrightarrow> keyed nodes'"
proof (induction js arbitrary: nodes)
  case Nil
  then show ?case by simp
next
  case (Cons j js)
  then obtain nodes1 where a: "load_joint ext j nodes = Inr nodes1"
    and b: "parse_joints ext js nodes1 = Inr nodes'"
    by (auto split: sum.splits)
  from Cons.IH [OF b load_joint_keyed [OF a Cons.prems(2)]] show ?case .
qed

lemma parse_links_Node:
  "parse_links ls rn nodes = Inr nodes' \<Longrightarrow>
     (\<forall>k nd. map_of nodes k = Some nd \<longrightarrow> nd = Node k rn) \<Longrightarrow>
     map_of nodes' k = Some nd \<Longrightarrow> nd = Node k rn"
proof (induction ls arbitrary: nodes)
  case Nil
  then show ?case by simp
next
  case (Cons l ls)
  then obtain n where n: "parse_link l rn = Inr n"
    and rest: "parse_links ls rn (AList.update (child n) n nodes) = Inr nodes'"
    by (auto split: sum.splits)
  have "\<forall>k nd. map_of (AList.update (child n) n nodes) k = Some nd \<longrightarrow> nd = Node k rn"
    using Cons.prems(2) parse_link_child [OF n] by (auto simp: update_conv')
  from Cons.IH [OF rest this Cons.prems(3)] show ?case .
qed

lemma set_joint_children:
  "set (joint_children robot) = {c. \<exists>j\<in>set (findAll robot ''joint''). child_link j = Some c}"
  by (force simp: joint_children_def List.map_filter_def)

lemma load_joint_other:
  assumes "load_joint ext joint nodes = Inr nodes'" and "child_link joint \<noteq> Some k"
  shows "map_of nodes' k = map_of nodes k"
proof -
  from load_joint_Inr [OF assms(1)] obtain cn nd'
    where "child_link joint = Some cn" and "nodes' = AList.update cn nd' nodes"
    by blast
  with assms(2) show ?thesis
    by (auto simp: update_conv')
qed

lemma parse_joints_other:
  "parse_joints ext js nodes = Inr nodes' \<Longrightarrow> \<forall>j\<in>set js. child_link j \<noteq> Some k \<Longrightarrow>
     map_of nodes' k = map_of nodes k"
proof (induction js arbitrary: nodes)
  case Nil
  then show ?case by simp
next
  case (Cons j js)
  then obtain nodes1 where a: "load_joint ext j nodes = Inr nodes1"
    and b: "parse_joints ext js nodes1 = Inr nodes'"
    by (auto split: sum.splits)
  from Cons.IH [OF b] Cons.prems(2) load_joint_other [OF a, of k] show ?case
    by simp
qed

text \<open>What the last loop of \<^verbatim>\<open>load_urdf\<close> leaves in the manager.\<close>

lemma commit_node_transforms:
  "transforms (commit_node nd m) = (transforms m)((child nd, parent nd) \<mapsto> child2parent nd)"
  by (simp add: commit_node_def add_joint_def add_transform_def Let_def split: option.splits)

lemma commit_node_frames:
  "frames (commit_node nd m) = insert (child nd) (insert (parent nd) (frames m))"
  by (simp add: commit_node_def add_joint_def add_transform_def Let_def split: option.splits)

lemma commit_node_joints:
  "joints (commit_node nd m) =
     (if joint_type nd = ''revolute'' \<and> joint_name nd \<noteq> None \<and> joint_axis nd \<noteq> None
      then (joints m)(the (joint_name nd) \<mapsto>
        (child nd, parent nd, child2parent nd, the (joint_axis nd)))
      else joints m)"
  by (auto simp: commit_node_def add_joint_def add_transform_def Let_def split: option.splits)

lemma fold_commit_transforms:
  "keyed nodes \<Longrightarrow>
     transforms (fold commit_node (map snd nodes) m) (c, p) =
       (case map_of nodes c of
          None \<Rightarrow> transforms m (c, p)
        | Some nd \<Rightarrow> if parent nd = p then Some (child2parent nd) else transforms m (c, p))"
proof (induction nodes arbitrary: m)
  case Nil
  then show ?case by simp
next
  case (Cons x nodes)
  obtain k nd where x: "x = (k, nd)"
    by (cases x)
  from Cons.prems x have kd: "keyed nodes" and ck: "child nd = k" and nk: "k \<notin> fst ` set nodes"
    by (auto simp: keyed_def)
  from nk have none: "map_of nodes k = None"
    by (simp add: map_of_eq_None_iff)
  show ?case
    using Cons.IH [OF kd, of "commit_node nd m"] x ck none
    by (auto simp: commit_node_transforms split: option.splits)
qed

lemma fold_commit_frames:
  "frames (fold commit_node nds m) = frames m \<union> child ` set nds \<union> parent ` set nds"
  by (induction nds arbitrary: m) (auto simp: commit_node_frames)


lemma fold_commit_joints_new:
  "joints (fold commit_node nds m) jn = Some (c, r) \<Longrightarrow>
     joints m jn = Some (c, r) \<or> (\<exists>nd\<in>set nds. joint_type nd = ''revolute'' \<and> child nd = c)"
proof (induction nds arbitrary: m)
  case Nil
  then show ?case by simp
next
  case (Cons nd nds)
  from Cons.IH [of "commit_node nd m"] Cons.prems show ?case
    by (auto simp: commit_node_joints split: if_splits)
qed

lemma load_urdf_Inr:
  assumes "find_el urdf ''robot'' = Some robot" and "get_attr robot ''name'' = Some rn"
    and "parse_links (findAll robot ''link'') rn [] = Inr nodes"
    and "parse_joints ext (findAll robot ''joint'') nodes = Inr nodes'"
  shows "load_urdf ext urdf m = (Inr (), fold commit_node (map snd nodes') m)"
  using assms by (simp add: load_urdf_def)

lemma load_urdf_InrD:
  assumes "load_urdf ext urdf m = (Inr (), m')"
    and "find_el urdf ''robot'' = Some robot" and "get_attr robot ''name'' = Some rn"
  shows "\<exists>nodes nodes'. parse_links (findAll robot ''link'') rn [] = Inr nodes
     \<and> parse_joints ext (findAll robot ''joint'') nodes = Inr nodes'
     \<and> keyed nodes \<and> keyed nodes'
     \<and> m' = fold commit_node (map snd nodes') m"
proof -
  from assms obtain nodes nodes' where a: "parse_links (findAll robot ''link'') rn [] = Inr nodes"
    and b: "parse_joints ext (findAll robot ''joint'') nodes = Inr nodes'"
    and c: "m' = fold commit_node (map snd nodes') m"
    by (auto simp: load_urdf_def split: sum.splits)
  from parse_links_keyed [OF a keyed_Nil] have "keyed nodes" .
  with parse_joints_keyed [OF b] a b c show ?thesis
    by blast
qed

lemma root_node:
  assumes a: "parse_links (findAll robot ''link'') rn [] = Inr nodes"
    and b: "parse_joints ext (findAll robot ''joint'') nodes = Inr nodes'"
    and l: "l \<in> set (link_names robot)" and nc: "l \<notin> set (joint_children robot)"
  shows "map_of nodes' l = Some (Node l rn)"
proof -
  from parse_links_link_names [OF a] l obtain nd where nd: "map_of nodes l = Some nd"
    by blast
  from parse_links_Node [OF a _ nd] have "nd = Node l rn"
    by simp
  moreover from nc have "\<forall>j\<in>set (findAll robot ''joint''). child_link j \<noteq> Some l"
    by (auto simp: set_joint_children)
  from parse_joints_other [OF b this] have "map_of nodes' l = map_of nodes l" .
  ultimately show ?thesis
    using nd by simp
qed

text \<open>
  Claim C10. After a successful \<^verbatim>\<open>load_urdf\<close>, every link that a link element of the robot
  declares and that no joint element names as its child has an edge from its frame to the
  frame named by the robot's name attribute, with the identity as transform; both frames
  exist, and the load registers no joint with that link as its child frame (the edge is a
  static one).
\<close>

theorem root_link_edge:
  assumes ok: "load_urdf ext urdf m = (Inr (), m')"
    and robot: "find_el urdf ''robot'' = Some robot" and rn: "get_attr robot ''name'' = Some rn"
    and l: "l \<in> set (link_names robot)" and nc: "l \<notin> set (joint_children robot)"
  shows "transforms m' (l, rn) = Some (eye 4) \<and> l \<in> frames m' \<and> rn \<in> frames m'
    \<and> (\<forall>jn p T ax. joints m' jn = Some (l, p, T, ax) \<longrightarrow> joints m jn = Some (l, p, T, ax))"
proof -
  from load_urdf_InrD [OF ok robot rn] obtain nodes nodes'
    where a: "parse_links (findAll robot ''link'') rn [] = Inr nodes"
      and b: "parse_joints ext (findAll robot ''joint'') nodes = Inr nodes'"
      and k: "keyed nodes'" and m': "m' = fold commit_node (map snd nodes') m"
    by blast
  have node: "map_of nodes' l = Some (Node l rn)"
    by (rule root_node [OF a b l nc])
  have edge: "transforms m' (l, rn) = Some (eye 4)"
    unfolding m' fold_commit_transforms [OF k] node by (simp add: Node_def)
  from node have mem: "Node l rn \<in> set (map snd nodes')"
    by (force dest: map_of_SomeD)
  then have fr: "l \<in> frames m'" "rn \<in> frames m'"
    unfolding m' fold_commit_frames by (force simp: Node_def)+
  have reg: "joints m jn = Some (l, p, T, ax)" if j: "joints m' jn = Some (l, p, T, ax)" for jn p T ax
  proof -
    from fold_commit_joints_new [OF j [unfolded m']]
    consider "joints m jn = Some (l, p, T, ax)"
      | nd where "nd \<in> set (map snd nodes')" "joint_type nd = ''revolute''" "child nd = l"
      by blast
    then show ?thesis
    proof cases
      case 1
      then show ?thesis .
    next
      case 2
      then obtain k' where in': "(k', nd) \<in> set nodes'"
        by auto
      with k have "child nd = k'" and "map_of nodes' k' = Some nd"
        by (auto simp: keyed_def)
      with 2 node have "nd = Node l rn"
        by simp
      with 2 show ?thesis
        by (simp add: Node_def)
    qed
  qed
  from edge fr reg show ?thesis
    by blast
qed

lemma load_joint_accepts:
  assumes "get_attr joint ''name'' = Some jn" and "get_attr joint ''type'' = Some jt"
    and "jt \<in> set [''revolute'', ''fixed'']"
    and "find_el joint ''parent'' = Some pe" and "get_attr pe ''link'' = Some pn"
    and "map_of nodes pn = Some pd"
    and "find_el joint ''child'' = Some ce" and "get_attr ce ''link'' = Some cn"
    and "map_of nodes cn = Some nd"
  shows "\<exists>nd'. load_joint ext joint nodes = Inr (AList.update cn nd' nodes)
    \<and> joint_name nd' = Some jn \<and> joint_type nd' = jt \<and> joint_axis nd' \<noteq> None
    \<and> child nd' = child nd \<and> parent nd' = pn"
proof -
  from parse_joint_supported [OF assms(1-3), of ext nd pn]
  obtain nd' where p: "parse_joint ext joint nd pn = Inr nd'"
    and f: "joint_name nd' = Some jn" "joint_type nd' = jt" "joint_axis nd' \<noteq> None"
      "child nd' = child nd" "parent nd' = pn"
    by simp
  have "load_joint ext joint nodes = Inr (AList.update cn nd' nodes)"
    using assms p by (simp add: load_joint_def has_attr_def)
  with f show ?thesis
    by blast
qed

lemma joint_el_facts:
  "get_attr (joint_el n t p c others) ''name'' = Some n"
  "get_attr (joint_el n t p c others) ''type'' = Some t"
  "find_el (joint_el n t p c others) ''parent'' = Some (Element ''parent'' [(''link'', p)] [])"
  "find_el (joint_el n t p c others) ''child'' = Some (Element ''child'' [(''link'', c)] [])"
  "get_attr (Element ''parent'' [(''link'', p)] []) ''link'' = Some p"
  "get_attr (Element ''child'' [(''link'', c)] []) ''link'' = Some c"
  "child_link (joint_el n t p c others) = Some c"
  by (simp_all add: doc_simps child_link_def)

lemma load_joint_el:
  assumes "t \<in> set [''revolute'', ''fixed'']"
    and "map_of nodes p = Some pd" and "map_of nodes c = Some nd"
  shows "\<exists>nd'. load_joint ext (joint_el n t p c others) nodes = Inr (AList.update c nd' nodes)
    \<and> joint_name nd' = Some n \<and> joint_type nd' = t \<and> joint_axis nd' \<noteq> None
    \<and> child nd' = child nd \<and> parent nd' = p"
  by (rule load_joint_accepts [OF joint_el_facts(1,2) assms(1) joint_el_facts(3,5) assms(2)
        joint_el_facts(4,6) assms(3)])

lemma example_robot:
  "find_el example_urdf ''robot'' =
     Some (Element ''robot'' [(''name'', ''r'')] [link_el ''base'', link_el ''arm'', example_joint])"
  "get_attr (Element ''robot'' [(''name'', ''r'')] [link_el ''base'', link_el ''arm'', example_joint])
     ''name'' = Some ''r''"
  "findAll (Element ''robot'' [(''name'', ''r'')] [link_el ''base'', link_el ''arm'', example_joint])
     ''link'' = [link_el ''base'', link_el ''arm'']"
  "findAll (Element ''robot'' [(''name'', ''r'')] [link_el ''base'', link_el ''arm'', example_joint])
     ''joint'' = [example_joint]"
  by (simp_all add: example_urdf_def example_joint_def doc_simps)

lemma example_links:
  "parse_links [link_el ''base'', link_el ''arm''] ''r'' [] =
     Inr [(''base'', Node ''base'' ''r''), (''arm'', Node ''arm'' ''r'')]"
  by (simp add: parse_link_def link_el_def get_attr_def Node_def)

lemma example_loads:
  "\<exists>m'. load_urdf reference example_urdf UrdfTransformManager = (Inr (), m')"
proof -
  let ?nodes = "[(''base'', Node ''base'' ''r''), (''arm'', Node ''arm'' ''r'')]"
  have "''revolute'' \<in> set [''revolute'', ''fixed'']"
    by simp
  from load_joint_el [OF this, of ?nodes "''base''" "Node ''base'' ''r''" "''arm''"
      "Node ''arm'' ''r''" reference "''j1''"]
  obtain nodes' where "load_joint reference example_joint ?nodes = Inr nodes'"
    unfolding example_joint_def by auto
  then have "parse_joints reference [example_joint] ?nodes = Inr nodes'"
    by simp
  from load_urdf_Inr [OF example_robot(1,2), of ?nodes reference nodes' UrdfTransformManager]
    this example_links
  show ?thesis
    by (simp add: example_robot)
qed

theorem root_link_edge_witness:
  "(\<exists>m'. load_urdf reference example_urdf UrdfTransformManager = (Inr (), m'))
   \<and> ''base'' \<in> set (link_names
        (Element ''robot'' [(''name'', ''r'')] [link_el ''base'', link_el ''arm'', example_joint]))
   \<and> ''base'' \<notin> set (joint_children
        (Element ''robot'' [(''name'', ''r'')] [link_el ''base'', link_el ''arm'', example_joint]))
   \<and> transforms (snd (load_urdf reference example_urdf UrdfTransformManager)) (''base'', ''r'') =
        Some (eye 4)"
proof -
  let ?r = "Element ''robot'' [(''name'', ''r'')] [link_el ''base'', link_el ''arm'', example_joint]"
  from example_loads obtain m'
    where ok: "load_urdf reference example_urdf UrdfTransformManager = (Inr (), m')"
    by blast
  have l: "''base'' \<in> set (link_names ?r)"
    by (simp add: link_names_def List.map_filter_def example_robot)
      (simp add: link_el_def get_attr_def)
  have nc: "''base'' \<notin> set (joint_children ?r)"
    by (simp add: joint_children_def List.map_filter_def example_robot)
      (simp add: example_joint_def joint_el_facts)
  from root_link_edge [OF ok example_robot(1,2) l nc]
  have e: "transforms m' (''base'', ''r'') = Some (eye 4)"
    by blast
  with ok l nc show ?thesis
    by auto
qed

section \<open>Loading: the registered joints\<close>

lemma load_joint_node:
  assumes "load_joint ext joint nodes = Inr nodes'"
  shows "\<exists>cn nd'. child_link joint = Some cn \<and> from_joint joint nd'
     \<and> nodes' = AList.update cn nd' nodes"
proof -
  from load_joint_Inr [OF assms] obtain cn nd pn nd'
    where c: "child_link joint = Some cn" and p: "parse_joint ext joint nd pn = Inr nd'"
      and n: "nodes' = AList.update cn nd' nodes"
    by blast
  from parse_joint_result [OF p] c n show ?thesis
    by blast
qed

lemma parse_joints_nodes:
  "parse_joints ext js nodes = Inr nodes' \<Longrightarrow> map_of nodes' k = Some nd \<Longrightarrow>
     map_of nodes k = Some nd \<or> (\<exists>j\<in>set js. child_link j = Some k \<and> from_joint j nd)"
proof (induction js arbitrary: nodes)
  case Nil
  then show ?case by simp
next
  case (Cons j js)
  then obtain nodes1 where a: "load_joint ext j nodes = Inr nodes1"
    and b: "parse_joints ext js nodes1 = Inr nodes'"
    by (auto split: sum.splits)
  from load_joint_node [OF a] obtain cn nd'
    where c: "child_link j = Some cn" and f: "from_joint j nd'"
      and n: "nodes1 = AList.update cn nd' nodes"
    by blast
  from Cons.IH [OF b Cons.prems(2)]
  consider "map_of nodes1 k = Some nd" | "\<exists>j\<in>set js. child_link j = Some k \<and> from_joint j nd"
    by blast
  then show ?case
  proof cases
    case 1
    with c f n show ?thesis
      by (cases "k = cn") (auto simp: update_conv')
  next
    case 2
    then show ?thesis
      by auto
  qed
qed


lemma Node_not_from_joint: "\<not> from_joint j (Node k rn)"
  by (simp add: from_joint_def Node_def)

text \<open>
  In \<^verbatim>\<open>load_urdf\<close> a revolute node has a name and an axis: the case that \<open>commit_node\<close>
  leaves to \<^verbatim>\<open>add_transform\<close> does not arise.
\<close>

lemma parse_joints_revolute_named:
  assumes a: "parse_links ls rn [] = Inr nodes" and b: "parse_joints ext js nodes = Inr nodes'"
    and nd: "nd \<in> set (map snd nodes')" and t: "joint_type nd = ''revolute''"
  shows "joint_name nd \<noteq> None \<and> joint_axis nd \<noteq> None"
proof -
  have k: "keyed nodes'"
    using parse_joints_keyed [OF b parse_links_keyed [OF a keyed_Nil]] .
  from nd obtain k' where "(k', nd) \<in> set nodes'"
    by auto
  with k have "map_of nodes' k' = Some nd"
    by (auto simp: keyed_def)
  from parse_joints_nodes [OF b this]
  consider "map_of nodes k' = Some nd" | j where "from_joint j nd"
    by blast
  then show ?thesis
  proof cases
    case 1
    from parse_links_Node [OF a _ 1] have "nd = Node k' rn"
      by simp
    with t show ?thesis
      by (simp add: Node_def)
  next
    case 2
    then show ?thesis
      unfolding from_joint_def by blast
  qed
qed










section \<open>Loading: the robot name\<close>

lemma reparent_Node: "reparent rn2 (Node k rn1) = Node k rn2"
  by (simp add: reparent_def Node_def)

lemma reparent_named: "joint_name nd \<noteq> None \<Longrightarrow> reparent rn nd = nd"
  by (cases "joint_name nd") (simp_all add: reparent_def)

lemma reparent_fields:
  "child (reparent rn nd) = child nd" "joint_name (reparent rn nd) = joint_name nd"
  "joint_type (reparent rn nd) = joint_type nd" "joint_axis (reparent rn nd) = joint_axis nd"
  "child2parent (reparent rn nd) = child2parent nd"
  by (simp_all add: reparent_def)

lemma map_of_reparent_table:
  "map_of (reparent_table rn nodes) k = map_option (reparent rn) (map_of nodes k)"
  by (induction nodes) (auto simp: reparent_table_def)

lemma update_reparent_table:
  "AList.update k (reparent rn nd) (reparent_table rn nodes) =
     reparent_table rn (AList.update k nd nodes)"
  by (induction nodes) (auto simp: reparent_table_def)

lemma keyed_reparent_table: "keyed nodes \<Longrightarrow> keyed (reparent_table rn nodes)"
  by (auto simp: keyed_def reparent_table_def reparent_fields comp_def case_prod_beta)

lemma snd_reparent_table:
  "map snd (reparent_table rn nodes) = map (reparent rn) (map snd nodes)"
  by (simp add: reparent_table_def case_prod_beta)

lemma parse_links_reparent:
  "parse_links ls rn2 (reparent_table rn2 nodes) =
     (case parse_links ls rn1 nodes of
        Inl e \<Rightarrow> Inl e
      | Inr nodes' \<Rightarrow> Inr (reparent_table rn2 nodes'))"
proof (induction ls arbitrary: nodes)
  case Nil
  then show ?case by simp
next
  case (Cons l ls)
  show ?case
  proof (cases "get_attr l ''name''")
    case None
    then show ?thesis
      by (simp add: parse_link_def)
  next
    case (Some n)
    have "parse_links ls rn2 (AList.update n (Node n rn2) (reparent_table rn2 nodes)) =
        (case parse_links ls rn1 (AList.update n (Node n rn1) nodes) of
           Inl e \<Rightarrow> Inl e
         | Inr nodes' \<Rightarrow> Inr (reparent_table rn2 nodes'))"
      using Cons.IH [of "AList.update n (Node n rn1) nodes"]
        update_reparent_table [of n rn2 "Node n rn1" nodes]
      by (simp add: reparent_Node)
    moreover have "child (Node n rn1) = n" "child (Node n rn2) = n"
      by (simp_all add: Node_def)
    ultimately show ?thesis
      using Some by (simp add: parse_link_def)
  qed
qed

lemma parse_joint_parent:
  "parse_joint ext j (nd\<lparr>parent := x\<rparr>) pn = parse_joint ext j nd pn"
proof (cases "get_attr j ''name''")
  case None
  then show ?thesis
    by (simp add: parse_joint_def getitem_def)
next
  case jn: (Some jn)
  show ?thesis
  proof (cases "get_attr j ''type''")
    case None
    with jn show ?thesis
      by (simp add: parse_joint_def getitem_def)
  next
    case jt: (Some jt)
    show ?thesis
    proof (cases "jt \<in> set [''planar'', ''floating'', ''continuous'', ''prismatic'']")
      case True
      show ?thesis
        unfolding parse_joint_unsupported [OF jn jt True] ..
    next
      case False
      show ?thesis
      proof (cases "jt \<in> set [''revolute'', ''fixed'']")
        case True
        show ?thesis
          unfolding parse_joint_supported [OF jn jt True] by simp
      next
        case no: False
        show ?thesis
          unfolding parse_joint_invalid [OF jn jt False no] ..
      qed
    qed
  qed
qed

lemma parse_joint_reparent: "parse_joint ext j (reparent rn nd) pn = parse_joint ext j nd pn"
  by (simp add: reparent_def parse_joint_parent)

lemma load_joint_reparent:
  "load_joint ext j (reparent_table rn nodes) =
     (case load_joint ext j nodes of
        Inl e \<Rightarrow> Inl e
      | Inr nodes' \<Rightarrow> Inr (reparent_table rn nodes'))"
proof (cases "get_attr j ''name''")
  case None
  then show ?thesis
    by (simp add: load_joint_def)
next
  case a: (Some jn)
  show ?thesis
  proof (cases "has_attr j ''type''")
    case False
    with a show ?thesis
      by (simp add: load_joint_def)
  next
    case b: True
    show ?thesis
    proof (cases "find_el j ''parent''")
      case None
      with a b show ?thesis
        by (simp add: load_joint_def)
    next
      case c: (Some pe)
      show ?thesis
      proof (cases "get_attr pe ''link''")
        case None
        with a b c show ?thesis
          by (simp add: load_joint_def)
      next
        case d: (Some pn)
        show ?thesis
        proof (cases "map_of nodes pn")
          case None
          with a b c d show ?thesis
            by (simp add: load_joint_def map_of_reparent_table)
        next
          case e: (Some pd)
          show ?thesis
          proof (cases "find_el j ''child''")
            case None
            with a b c d e show ?thesis
              by (simp add: load_joint_def map_of_reparent_table)
          next
            case f: (Some ce)
            show ?thesis
            proof (cases "get_attr ce ''link''")
              case None
              with a b c d e f show ?thesis
                by (simp add: load_joint_def map_of_reparent_table)
            next
              case g: (Some cn)
              show ?thesis
              proof (cases "map_of nodes cn")
                case None
                with a b c d e f g show ?thesis
                  by (simp add: load_joint_def map_of_reparent_table)
              next
                case h: (Some nd)
                show ?thesis
                proof (cases "parse_joint ext j nd pn")
                  case (Inl x)
                  with a b c d e f g h show ?thesis
                    by (simp add: load_joint_def map_of_reparent_table parse_joint_reparent)
                next
                  case (Inr nd')
                  from parse_joint_result [OF Inr] have "joint_name nd' \<noteq> None"
                    unfolding from_joint_def by blast
                  then have "reparent rn nd' = nd'"
                    by (rule reparent_named)
                  with update_reparent_table [of cn rn nd' nodes]
                  have u: "AList.update cn nd' (reparent_table rn nodes) =
                      reparent_table rn (AList.update cn nd' nodes)"
                    by simp
                  from a b c d e f g h Inr show ?thesis
                    by (simp add: load_joint_def map_of_reparent_table parse_joint_reparent u)
                qed
              qed
            qed
          qed
        qed
      qed
    qed
  qed
qed

lemma parse_joints_reparent:
  "parse_joints ext js (reparent_table rn nodes) =
     (case parse_joints ext js nodes of
        Inl e \<Rightarrow> Inl e
      | Inr nodes' \<Rightarrow> Inr (reparent_table rn nodes'))"
  by (induction js arbitrary: nodes) (auto simp: load_joint_reparent split: sum.splits)

lemma commit_node_joints_reparent:
  "joints m1 = joints m2 \<Longrightarrow> joints (commit_node (reparent rn nd) m2) = joints (commit_node nd m1)"
  by (cases "joint_name nd") (auto simp: commit_node_joints reparent_fields reparent_named)

lemma fold_commit_joints_reparent:
  "joints m1 = joints m2 \<Longrightarrow>
     joints (fold commit_node (map (reparent rn) nds) m2) = joints (fold commit_node nds m1)"
proof (induction nds arbitrary: m1 m2)
  case Nil
  then show ?case by simp
next
  case (Cons nd nds)
  from Cons.IH [OF commit_node_joints_reparent [OF Cons.prems, of rn nd, symmetric]] show ?case
    by simp
qed

lemma parse_joints_touched:
  "parse_joints ext js nodes = Inr nodes' \<Longrightarrow> j \<in> set js \<Longrightarrow> child_link j = Some c \<Longrightarrow>
     \<exists>nd. map_of nodes' c = Some nd \<and> joint_name nd \<noteq> None"
proof (induction js arbitrary: nodes)
  case Nil
  then show ?case by simp
next
  case (Cons x js)
  then obtain nodes1 where a: "load_joint ext x nodes = Inr nodes1"
    and b: "parse_joints ext js nodes1 = Inr nodes'"
    by (auto split: sum.splits)
  show ?case
  proof (cases "j \<in> set js")
    case True
    from Cons.IH [OF b True Cons.prems(3)] show ?thesis .
  next
    case False
    with Cons.prems(2) have jx: "j = x"
      by simp
    from load_joint_node [OF a] jx Cons.prems(3) obtain nd'
      where f: "from_joint x nd'" and n: "nodes1 = AList.update c nd' nodes"
      by auto
    from n have m1: "map_of nodes1 c = Some nd'"
      by (simp add: update_conv')
    then have "c \<in> dom (map_of nodes')"
      using parse_joints_dom [OF b] by blast
    then obtain nd where nd: "map_of nodes' c = Some nd"
      by blast
    from parse_joints_nodes [OF b nd] m1 f have "joint_name nd \<noteq> None"
      by (auto simp: from_joint_def)
    with nd show ?thesis
      by blast
  qed
qed

lemma findAll_contents: "contents r1 = contents r2 \<Longrightarrow> findAll r1 t = findAll r2 t"
  by (cases r1; cases r2) (simp add: findAll_def)

lemma load_urdf_unfold:
  assumes "find_el urdf ''robot'' = Some robot" and "get_attr robot ''name'' = Some rn"
  shows "load_urdf ext urdf m =
     (case parse_links (findAll robot ''link'') rn [] of
        Inl e \<Rightarrow> (Inl e, m)
      | Inr nodes \<Rightarrow>
          (case parse_joints ext (findAll robot ''joint'') nodes of
             Inl e \<Rightarrow> (Inl e, m)
           | Inr nodes' \<Rightarrow> (Inr (), fold commit_node (map snd nodes') m)))"
  using assms by (simp add: load_urdf_def)

lemma untouched_node:
  assumes a: "parse_links ls rn [] = Inr nodes"
    and b: "parse_joints ext js nodes = Inr nodes'"
    and nd: "map_of nodes' k = Some nd" and un: "joint_name nd = None"
  shows "nd = Node k rn"
proof -
  from parse_joints_nodes [OF b nd] un have "map_of nodes k = Some nd"
    by (auto simp: from_joint_def)
  from parse_links_Node [OF a _ this] show ?thesis
    by simp
qed

lemma load_urdf_nameless:
  "find_el urdf ''robot'' = Some robot \<Longrightarrow> get_attr robot ''name'' = None \<Longrightarrow>
     load_urdf ext urdf m =
       (Inl (UrdfException ''Attribute 'name' is missing in robot tag.''), m)"
  by (simp add: load_urdf_def)

text \<open>
  Claim C8, as amended. The name of the robot element is required: a document whose robot
  element has no name attribute fails with an exception and leaves the manager as it was.
  Take two documents whose robot elements have the same content and each a name. Loading
  either into the same manager gives the same outcome (success, or the same exception) and
  the same joints, the same edge for every link that a joint element names as its child,
  and the same edge for every pair of frames whose second frame is neither of the two robot
  names; the frames of the two results are the same apart from the two robot names. The
  robot name is the parent frame of every other link: after a successful load, a declared
  link that no joint names as its child has the identity edge to the robot name of its own
  document, and that name is a frame of the result.
\<close>

theorem robot_name_effect:
  assumes r1: "find_el urdf1 ''robot'' = Some robot1" and r2: "find_el urdf2 ''robot'' = Some robot2"
    and same: "contents robot1 = contents robot2"
    and n1: "get_attr robot1 ''name'' = Some rn1" and n2: "get_attr robot2 ''name'' = Some rn2"
  shows "fst (load_urdf ext urdf1 m) = fst (load_urdf ext urdf2 m)
    \<and> joints (snd (load_urdf ext urdf1 m)) = joints (snd (load_urdf ext urdf2 m))
    \<and> (\<forall>c p. c \<in> set (joint_children robot1) \<longrightarrow>
          transforms (snd (load_urdf ext urdf1 m)) (c, p) =
          transforms (snd (load_urdf ext urdf2 m)) (c, p))
    \<and> (fst (load_urdf ext urdf1 m) = Inr () \<longrightarrow>
          (\<forall>l\<in>set (link_names robot1). l \<notin> set (joint_children robot1) \<longrightarrow>
             transforms (snd (load_urdf ext urdf1 m)) (l, rn1) = Some (eye 4)
             \<and> transforms (snd (load_urdf ext urdf2 m)) (l, rn2) = Some (eye 4)
             \<and> rn1 \<in> frames (snd (load_urdf ext urdf1 m))
             \<and> rn2 \<in> frames (snd (load_urdf ext urdf2 m))))
    \<and> (\<forall>c p. p \<noteq> rn1 \<and> p \<noteq> rn2 \<longrightarrow>
          transforms (snd (load_urdf ext urdf1 m)) (c, p) =
          transforms (snd (load_urdf ext urdf2 m)) (c, p))
    \<and> frames (snd (load_urdf ext urdf1 m)) - {rn1, rn2} =
        frames (snd (load_urdf ext urdf2 m)) - {rn1, rn2}
    \<and> (\<forall>urdf robot. find_el urdf ''robot'' = Some robot \<and> get_attr robot ''name'' = None \<longrightarrow>
          load_urdf ext urdf m =
            (Inl (UrdfException ''Attribute 'name' is missing in robot tag.''), m))"
proof -
  let ?ls = "findAll robot1 ''link''" and ?js = "findAll robot1 ''joint''"
  have nameless: "load_urdf ext urdf m =
      (Inl (UrdfException ''Attribute 'name' is missing in robot tag.''), m)"
    if "find_el urdf ''robot'' = Some robot" "get_attr robot ''name'' = None" for urdf robot
    using that by (rule load_urdf_nameless)
  have fa: "findAll robot2 t = findAll robot1 t" for t
    using findAll_contents [OF same] by simp
  have ln: "link_names robot2 = link_names robot1" and jc: "joint_children robot2 = joint_children robot1"
    by (simp_all add: link_names_def joint_children_def fa)
  have rt0: "reparent_table rn2 [] = []"
    by (simp add: reparent_table_def)
  have pl: "parse_links ?ls rn2 [] =
      (case parse_links ?ls rn1 [] of Inl e \<Rightarrow> Inl e | Inr nodes \<Rightarrow> Inr (reparent_table rn2 nodes))"
    using parse_links_reparent [of ?ls rn2 "[]" rn1] by (simp add: rt0)
  note u1 = load_urdf_unfold [OF r1 n1, of ext m]
  note u2 = load_urdf_unfold [OF r2 n2, of ext m, unfolded fa]
  show ?thesis
  proof (cases "parse_links ?ls rn1 []")
    case (Inl e)
    with pl u1 u2 nameless show ?thesis
      by simp
  next
    case a: (Inr nodes)
    with pl have a2: "parse_links ?ls rn2 [] = Inr (reparent_table rn2 nodes)"
      by simp
    show ?thesis
    proof (cases "parse_joints ext ?js nodes")
      case (Inl e)
      with parse_joints_reparent [of ext ?js rn2 nodes]
      have "parse_joints ext ?js (reparent_table rn2 nodes) = Inl e"
        by simp
      with Inl a a2 u1 u2 nameless show ?thesis
        by simp
    next
      case b: (Inr nodes')
      with parse_joints_reparent [of ext ?js rn2 nodes]
      have b2: "parse_joints ext ?js (reparent_table rn2 nodes) = Inr (reparent_table rn2 nodes')"
        by simp
      have l1: "load_urdf ext urdf1 m = (Inr (), fold commit_node (map snd nodes') m)"
        using u1 a b by simp
      have l2: "load_urdf ext urdf2 m =
          (Inr (), fold commit_node (map snd (reparent_table rn2 nodes')) m)"
        using u2 a2 b2 by simp
      have k: "keyed nodes'"
        using parse_joints_keyed [OF b parse_links_keyed [OF a keyed_Nil]] .
      have k2: "keyed (reparent_table rn2 nodes')"
        using k by (rule keyed_reparent_table)
      have js: "joints (fold commit_node (map snd nodes') m) =
          joints (fold commit_node (map snd (reparent_table rn2 nodes')) m)"
        unfolding snd_reparent_table
        using fold_commit_joints_reparent [of m m rn2 "map snd nodes'"] by simp
      have tr: "transforms (fold commit_node (map snd nodes') m) (c, p) =
          transforms (fold commit_node (map snd (reparent_table rn2 nodes')) m) (c, p)"
        if c: "c \<in> set (joint_children robot1)" for c p
      proof -
        from c obtain j where "j \<in> set ?js" "child_link j = Some c"
          by (auto simp: set_joint_children)
        from parse_joints_touched [OF b this] obtain nd
          where nd: "map_of nodes' c = Some nd" and named: "joint_name nd \<noteq> None"
          by blast
        from nd named have "map_of (reparent_table rn2 nodes') c = Some nd"
          by (simp add: map_of_reparent_table reparent_named)
        with nd show ?thesis
          unfolding fold_commit_transforms [OF k] fold_commit_transforms [OF k2] by simp
      qed
      have roots: "transforms (fold commit_node (map snd nodes') m) (l, rn1) = Some (eye 4)
          \<and> transforms (fold commit_node (map snd (reparent_table rn2 nodes')) m) (l, rn2) =
            Some (eye 4)
          \<and> rn1 \<in> frames (fold commit_node (map snd nodes') m)
          \<and> rn2 \<in> frames (fold commit_node (map snd (reparent_table rn2 nodes')) m)"
        if l: "l \<in> set (link_names robot1)" and nc: "l \<notin> set (joint_children robot1)" for l
      proof -
        from root_node [OF a b l nc] have n: "map_of nodes' l = Some (Node l rn1)" .
        then have n2: "map_of (reparent_table rn2 nodes') l = Some (Node l rn2)"
          by (simp add: map_of_reparent_table reparent_Node)
        with n have e: "transforms (fold commit_node (map snd nodes') m) (l, rn1) = Some (eye 4)
          \<and> transforms (fold commit_node (map snd (reparent_table rn2 nodes')) m) (l, rn2) =
            Some (eye 4)"
          unfolding fold_commit_transforms [OF k] fold_commit_transforms [OF k2]
          by (simp add: Node_def)
        from n have "Node l rn1 \<in> set (map snd nodes')"
          by (force dest: map_of_SomeD)
        then have f1: "rn1 \<in> frames (fold commit_node (map snd nodes') m)"
          unfolding fold_commit_frames by (force simp: Node_def)
        from n2 have "Node l rn2 \<in> set (map snd (reparent_table rn2 nodes'))"
          by (force dest: map_of_SomeD)
        then have f2: "rn2 \<in> frames (fold commit_node (map snd (reparent_table rn2 nodes')) m)"
          unfolding fold_commit_frames by (force simp: Node_def)
        from e f1 f2 show ?thesis
          by simp
      qed
      have static: "nd = Node c rn1" if "map_of nodes' c = Some nd" "joint_name nd = None" for c nd
        using untouched_node [OF a b that] .
      have others: "transforms (fold commit_node (map snd nodes') m) (c, p) =
          transforms (fold commit_node (map snd (reparent_table rn2 nodes')) m) (c, p)"
        if p: "p \<noteq> rn1" "p \<noteq> rn2" for c p
      proof (cases "map_of nodes' c")
        case None
        then show ?thesis
          unfolding fold_commit_transforms [OF k] fold_commit_transforms [OF k2]
          by (simp add: map_of_reparent_table)
      next
        case (Some nd)
        show ?thesis
        proof (cases "joint_name nd = None")
          case True
          with static [OF Some] have "nd = Node c rn1"
            by simp
          with Some p show ?thesis
            unfolding fold_commit_transforms [OF k] fold_commit_transforms [OF k2]
            by (simp add: map_of_reparent_table reparent_def Node_def)
        next
          case False
          with Some show ?thesis
            unfolding fold_commit_transforms [OF k] fold_commit_transforms [OF k2]
            by (simp add: map_of_reparent_table reparent_named)
        qed
      qed
      have par: "parent nd = rn1" if "nd \<in> set (map snd nodes')" "joint_name nd = None" for nd
      proof -
        from that(1) obtain c where "(c, nd) \<in> set nodes'"
          by auto
        with k have "map_of nodes' c = Some nd"
          by (simp add: keyed_def)
        from static [OF this that(2)] show ?thesis
          by (simp add: Node_def)
      qed
      have fr: "frames (fold commit_node (map snd nodes') m) - {rn1, rn2} =
          frames (fold commit_node (map snd (reparent_table rn2 nodes')) m) - {rn1, rn2}"
      proof -
        have ch: "child ` set (map (reparent rn2) (map snd nodes')) = child ` set (map snd nodes')"
          by (simp add: image_image reparent_fields)
        have pa: "parent ` set (map (reparent rn2) (map snd nodes')) - {rn1, rn2} =
            parent ` set (map snd nodes') - {rn1, rn2}"
        proof (intro set_eqI iffI)
          fix x assume "x \<in> parent ` set (map (reparent rn2) (map snd nodes')) - {rn1, rn2}"
          then obtain nd where nd: "nd \<in> set (map snd nodes')" "x = parent (reparent rn2 nd)"
            and x: "x \<noteq> rn1" "x \<noteq> rn2"
            by auto
          from nd(2) x(2) have "joint_name nd \<noteq> None"
            by (cases "joint_name nd") (simp_all add: reparent_def)
          with nd have "x = parent nd"
            by (simp add: reparent_named)
          with nd(1) x show "x \<in> parent ` set (map snd nodes') - {rn1, rn2}"
            by simp
        next
          fix x assume "x \<in> parent ` set (map snd nodes') - {rn1, rn2}"
          then obtain nd where nd: "nd \<in> set (map snd nodes')" "x = parent nd"
            and x: "x \<noteq> rn1" "x \<noteq> rn2"
            by auto
          from par [OF nd(1)] nd(2) x(1) have "joint_name nd \<noteq> None"
            by auto
          then have "parent (reparent rn2 nd) = x"
            using nd(2) by (simp add: reparent_named)
          with nd(1) have "x \<in> parent ` set (map (reparent rn2) (map snd nodes'))"
            by force
          with x show "x \<in> parent ` set (map (reparent rn2) (map snd nodes')) - {rn1, rn2}"
            by simp
        qed
        show ?thesis
          unfolding snd_reparent_table fold_commit_frames Un_Diff ch pa ..
      qed
      show ?thesis
        unfolding l1 l2 using js tr roots others fr nameless by simp
    qed
  qed
qed

lemma one_link_load:
  "load_urdf ext (one_link_urdf rn) m = (Inr (), commit_node (Node ''base'' rn) m)"
  by (simp add: load_urdf_def one_link_urdf_def doc_simps parse_link_def Node_def)

text \<open>
  Claim C8 as stated fails: the two documents with the one link base differ in the robot
  name only, and the loads commit different edges and frames.
\<close>

theorem robot_name_counterexample:
  "find_el (one_link_urdf ''r'') ''robot'' = Some (Element ''robot'' [(''name'', ''r'')] [link_el ''base''])
   \<and> find_el (one_link_urdf ''s'') ''robot'' = Some (Element ''robot'' [(''name'', ''s'')] [link_el ''base''])
   \<and> transforms (snd (load_urdf reference (one_link_urdf ''r'') UrdfTransformManager))
        (''base'', ''r'') = Some (eye 4)
   \<and> transforms (snd (load_urdf reference (one_link_urdf ''s'') UrdfTransformManager))
        (''base'', ''r'') = None
   \<and> frames (snd (load_urdf reference (one_link_urdf ''r'') UrdfTransformManager)) = {''base'', ''r''}
   \<and> frames (snd (load_urdf reference (one_link_urdf ''s'') UrdfTransformManager)) = {''base'', ''s''}"
  by (simp add: one_link_load commit_node_transforms commit_node_frames)
    (simp add: Node_def UrdfTransformManager_def one_link_urdf_def doc_simps)

theorem robot_name_effect_witness:
  "find_el example_urdf ''robot'' =
     Some (Element ''robot'' [(''name'', ''r'')] [link_el ''base'', link_el ''arm'', example_joint])
   \<and> find_el renamed_urdf ''robot'' =
     Some (Element ''robot'' [(''name'', ''s'')] [link_el ''base'', link_el ''arm'', example_joint])
   \<and> fst (load_urdf reference example_urdf UrdfTransformManager) = Inr ()
   \<and> fst (load_urdf reference renamed_urdf UrdfTransformManager) = Inr ()
   \<and> joints (snd (load_urdf reference example_urdf UrdfTransformManager)) =
       joints (snd (load_urdf reference renamed_urdf UrdfTransformManager))
   \<and> transforms (snd (load_urdf reference example_urdf UrdfTransformManager)) (''arm'', ''base'') =
       transforms (snd (load_urdf reference renamed_urdf UrdfTransformManager)) (''arm'', ''base'')
   \<and> transforms (snd (load_urdf reference example_urdf UrdfTransformManager)) (''base'', ''r'') =
       Some (eye 4)
   \<and> transforms (snd (load_urdf reference renamed_urdf UrdfTransformManager)) (''base'', ''s'') =
       Some (eye 4)
   \<and> ''r'' \<in> frames (snd (load_urdf reference example_urdf UrdfTransformManager))
   \<and> ''s'' \<in> frames (snd (load_urdf reference renamed_urdf UrdfTransformManager))
   \<and> transforms (snd (load_urdf reference example_urdf UrdfTransformManager)) (''base'', ''arm'') =
       transforms (snd (load_urdf reference renamed_urdf UrdfTransformManager)) (''base'', ''arm'')
   \<and> frames (snd (load_urdf reference example_urdf UrdfTransformManager)) - {''r'', ''s''} =
       frames (snd (load_urdf reference renamed_urdf UrdfTransformManager)) - {''r'', ''s''}
   \<and> find_el nameless_urdf ''robot'' = Some (Element ''robot'' [] [link_el ''base''])
   \<and> get_attr (Element ''robot'' [] [link_el ''base'']) ''name'' = None
   \<and> load_urdf reference nameless_urdf UrdfTransformManager =
       (Inl (UrdfException ''Attribute 'name' is missing in robot tag.''), UrdfTransformManager)"
proof -
  let ?cs = "[link_el ''base'', link_el ''arm'', example_joint]"
  let ?r1 = "Element ''robot'' [(''name'', ''r'')] ?cs"
  let ?r2 = "Element ''robot'' [(''name'', ''s'')] ?cs"
  let ?r3 = "Element ''robot'' [] [link_el ''base'']"
  have r1: "find_el example_urdf ''robot'' = Some ?r1"
    by (rule example_robot)
  have r2: "find_el renamed_urdf ''robot'' = Some ?r2"
    by (simp add: renamed_urdf_def example_joint_def doc_simps)
  have r3: "find_el nameless_urdf ''robot'' = Some ?r3"
    by (simp add: nameless_urdf_def doc_simps)
  have same: "contents ?r1 = contents ?r2"
    by simp
  have n1: "get_attr ?r1 ''name'' = Some ''r''" and n2: "get_attr ?r2 ''name'' = Some ''s''"
    and n3: "get_attr ?r3 ''name'' = None"
    by (simp_all add: get_attr_def)
  from example_loads have ok: "fst (load_urdf reference example_urdf UrdfTransformManager) = Inr ()"
    by auto
  have l: "''base'' \<in> set (link_names ?r1)"
    by (simp add: link_names_def List.map_filter_def example_robot)
      (simp add: link_el_def get_attr_def)
  have jc: "joint_children ?r1 = [''arm'']"
    by (simp add: joint_children_def List.map_filter_def example_robot)
      (simp add: example_joint_def joint_el_facts)
  note t = robot_name_effect [OF r1 r2 same n1 n2, of reference UrdfTransformManager]
  from t ok have ok2: "fst (load_urdf reference renamed_urdf UrdfTransformManager) = Inr ()"
    by simp
  from t have js: "joints (snd (load_urdf reference example_urdf UrdfTransformManager)) =
       joints (snd (load_urdf reference renamed_urdf UrdfTransformManager))"
    by blast
  from t jc have tr: "transforms (snd (load_urdf reference example_urdf UrdfTransformManager))
        (''arm'', ''base'') =
       transforms (snd (load_urdf reference renamed_urdf UrdfTransformManager)) (''arm'', ''base'')"
    by simp
  from t ok l jc have roots:
    "transforms (snd (load_urdf reference example_urdf UrdfTransformManager)) (''base'', ''r'') =
       Some (eye 4)"
    "transforms (snd (load_urdf reference renamed_urdf UrdfTransformManager)) (''base'', ''s'') =
       Some (eye 4)"
    "''r'' \<in> frames (snd (load_urdf reference example_urdf UrdfTransformManager))"
    "''s'' \<in> frames (snd (load_urdf reference renamed_urdf UrdfTransformManager))"
    by simp_all
  note others_part = t [THEN conjunct2, THEN conjunct2, THEN conjunct2, THEN conjunct2,
      THEN conjunct1, rule_format, of "''arm''" "''base''"]
  note frames_part = t [THEN conjunct2, THEN conjunct2, THEN conjunct2, THEN conjunct2,
      THEN conjunct2, THEN conjunct1]
  note nameless_part = t [THEN conjunct2, THEN conjunct2, THEN conjunct2, THEN conjunct2,
      THEN conjunct2, THEN conjunct2, rule_format, OF conjI, OF r3 n3]
  have others:
    "transforms (snd (load_urdf reference example_urdf UrdfTransformManager)) (''base'', ''arm'') =
       transforms (snd (load_urdf reference renamed_urdf UrdfTransformManager)) (''base'', ''arm'')"
    by (rule others_part) simp
  have fr:
    "frames (snd (load_urdf reference example_urdf UrdfTransformManager)) - {''r'', ''s''} =
       frames (snd (load_urdf reference renamed_urdf UrdfTransformManager)) - {''r'', ''s''}"
    by (rule frames_part)
  have nameless: "load_urdf reference nameless_urdf UrdfTransformManager =
       (Inl (UrdfException ''Attribute 'name' is missing in robot tag.''), UrdfTransformManager)"
    by (rule nameless_part)
  show ?thesis
    by (intro conjI r1 r2 ok ok2 js tr roots others fr r3 n3 nameless)
qed

end
